theory Spec2Isabelle
  imports Main
begin

section \<open>The task tracker and its storage layer\<close>

text \<open>
  The repository holds three variants of one command-line task tracker:
  \<^verbatim>\<open>TaskManager.py\<close> (key from the environment, timestamped backups, SHA-256 digest
  file, logging), \<^verbatim>\<open>tracker_Encryption.py\<close> (key file generated on demand, one rolling
  backup, messages printed) and \<^verbatim>\<open>tracker_Log.py\<close> (as the former, with logging).
  The functions of \<^verbatim>\<open>TaskManager.py\<close> keep their names; those of
  \<^verbatim>\<open>tracker_Encryption.py\<close> carry the suffix \<open>_enc\<close>, those of \<^verbatim>\<open>tracker_Log.py\<close> the
  suffix \<open>_log\<close>.

  Every function that touches the outside world takes the world and returns it, next to
  a result that is either a raised exception (\<open>Inl\<close>) or a value (\<open>Inr\<close>).
\<close>

subsection \<open>Data\<close>

text \<open>
  A \<open>char\<close> is one byte, so a byte string is a \<open>string\<close>. Python text is a \<open>string\<close> too;
  what lies between the two, \<^verbatim>\<open>encode\<close> and \<^verbatim>\<open>decode\<close>, is left to the platform below.
\<close>

type_synonym bytes = string

text \<open>A task is the dict \<^verbatim>\<open>{"id": .., "title": .., "description": .., "status": ..}\<close>.\<close>

record task =
  task_id :: int
  title :: string
  description :: string
  status :: string

datatype exn =
    ValueError string
  | InvalidToken
  | FileNotFoundError string
  | FileExistsError string
  | PermissionError string
  | IsADirectoryError string
  | UnicodeDecodeError
  | JSONDecodeError
  | EOFError

datatype level = INFO | WARNING | ERROR

text \<open>
  The world: the process environment, the regular files and the directories of the
  working directory (by the path the program uses), the process umask, the records sent
  to the logging module, the lines waiting on standard input, what was printed, how
  often the random source and the wall clock have been read so far, the effective user
  id of the process (0 is root) and the permission bits of each directory, which belongs
  to that user. The log file \<^verbatim>\<open>task_tracker.log\<close> is the list \<open>logged\<close>; it is not an entry
  of \<open>files\<close>.
\<close>

record world =
  environ :: "string \<rightharpoonup> string"
  files :: "string \<rightharpoonup> bytes"
  dirs :: "string set"
  umask :: nat
  logged :: "(level \<times> string) list"
  stdin :: "string list"
  stdout :: "string list"
  entropy :: nat
  clock :: nat
  euid :: nat
  dir_mode :: "string \<Rightarrow> nat"

text \<open>
  The libraries the program calls are not part of the repository. They are parameters:
  \<^item> \<open>fernet_valid_key k\<close>: \<^verbatim>\<open>Fernet(k)\<close> accepts the key (32 url-safe base64 bytes);
  \<^item> \<open>fernet_encrypt k n p\<close>: the token \<^verbatim>\<open>Fernet(k).encrypt(p)\<close> returns when the random
    source and the clock are read for the \<open>n\<close>-th time;
  \<^item> \<open>fernet_decrypt k t\<close>: \<^verbatim>\<open>Fernet(k).decrypt(t)\<close>, \<open>None\<close> for \<^verbatim>\<open>InvalidToken\<close>;
  \<^item> \<open>fernet_generate_key n\<close>: \<^verbatim>\<open>Fernet.generate_key()\<close> at the \<open>n\<close>-th read of the random
    source;
  \<^item> \<open>sha256_hexdigest b\<close>: \<^verbatim>\<open>hashlib.sha256(b).hexdigest()\<close>;
  \<^item> \<open>json_dumps\<close>, \<open>json_loads\<close>: \<^verbatim>\<open>json.dumps\<close> and \<^verbatim>\<open>json.loads\<close> on lists of tasks
    (\<open>None\<close> for \<^verbatim>\<open>JSONDecodeError\<close>);
  \<^item> \<open>str_encode\<close>, \<open>bytes_decode\<close>: \<^verbatim>\<open>str.encode()\<close> and \<^verbatim>\<open>bytes.decode()\<close>, also used by
    files opened in text mode (\<open>None\<close> for \<^verbatim>\<open>UnicodeDecodeError\<close>);
  \<^item> \<open>py_int s\<close>: \<^verbatim>\<open>int(s)\<close>, \<open>None\<close> for \<^verbatim>\<open>ValueError\<close>;
  \<^item> \<open>strftime_now n\<close>: \<^verbatim>\<open>datetime.now().strftime("%Y%m%d_%H%M%S")\<close> at the \<open>n\<close>-th read of
    the clock.
\<close>

record platform =
  fernet_valid_key :: "bytes \<Rightarrow> bool"
  fernet_encrypt :: "bytes \<Rightarrow> nat \<Rightarrow> bytes \<Rightarrow> bytes"
  fernet_decrypt :: "bytes \<Rightarrow> bytes \<Rightarrow> bytes option"
  fernet_generate_key :: "nat \<Rightarrow> bytes"
  sha256_hexdigest :: "bytes \<Rightarrow> string"
  json_dumps :: "task list \<Rightarrow> string"
  json_loads :: "string \<Rightarrow> task list option"
  str_encode :: "string \<Rightarrow> bytes"
  bytes_decode :: "bytes \<Rightarrow> string option"
  py_int :: "string \<Rightarrow> int option"
  strftime_now :: "nat \<Rightarrow> string"

type_synonym 'a io = "world \<Rightarrow> (exn + 'a) \<times> world"

subsection \<open>Module constants\<close>

definition KEY_FILE :: string where "KEY_FILE = ''encryption_key.key''"
definition FILE :: string where "FILE = ''tasks.json''"
definition HASH_FILE :: string where "HASH_FILE = ''tasks_hash.sha256''"
definition BACKUP_FOLDER :: string where "BACKUP_FOLDER = ''backups/''"

subsection \<open>Built-ins\<close>

text \<open>\<^verbatim>\<open>os.path.exists\<close>: a regular file or a directory is there.\<close>

definition path_exists :: "world \<Rightarrow> string \<Rightarrow> bool" where
  "path_exists w p = (files w p \<noteq> None \<or> p \<in> dirs w)"

definition logging_info :: "string \<Rightarrow> world \<Rightarrow> world" where
  "logging_info msg w = w\<lparr>logged := logged w @ [(INFO, msg)]\<rparr>"

definition logging_warning :: "string \<Rightarrow> world \<Rightarrow> world" where
  "logging_warning msg w = w\<lparr>logged := logged w @ [(WARNING, msg)]\<rparr>"

definition logging_error :: "string \<Rightarrow> world \<Rightarrow> world" where
  "logging_error msg w = w\<lparr>logged := logged w @ [(ERROR, msg)]\<rparr>"

definition py_print :: "string \<Rightarrow> world \<Rightarrow> world" where
  "py_print msg w = w\<lparr>stdout := stdout w @ [msg]\<rparr>"

text \<open>\<^verbatim>\<open>input(prompt)\<close>: the prompt is printed, then one line is read; end of input raises.\<close>

definition py_input :: "string \<Rightarrow> string io" where
  "py_input prompt w =
     (let w1 = py_print prompt w in
      case stdin w1 of
        [] \<Rightarrow> (Inl EOFError, w1)
      | l # ls \<Rightarrow> (Inr l, w1\<lparr>stdin := ls\<rparr>))"

text \<open>
  \<^verbatim>\<open>str.strip()\<close> removes leading and trailing whitespace: the characters for which
  \<^verbatim>\<open>str.isspace\<close> holds, here those among the 256 characters of \<open>char\<close>.
\<close>

definition isspace :: "char \<Rightarrow> bool" where
  "isspace c = (let n = (of_char c :: nat) in
     (9 \<le> n \<and> n \<le> 13) \<or> (28 \<le> n \<and> n \<le> 32) \<or> n = 133 \<or> n = 160)"

definition strip :: "string \<Rightarrow> string" where
  "strip s = rev (dropWhile isspace (rev (dropWhile isspace s)))"

text \<open>\<^verbatim>\<open>str(n)\<close> for an integer, as the f-strings format it.\<close>

fun str_nat :: "nat \<Rightarrow> string" where
  "str_nat n = (if n < 10 then [char_of (48 + n)]
                else str_nat (n div 10) @ [char_of (48 + n mod 10)])"

declare str_nat.simps [simp del]

definition str_int :: "int \<Rightarrow> string" where
  "str_int i = (if i < 0 then CHR ''-'' # str_nat (nat (- i)) else str_nat (nat i))"

text \<open>
  \<^verbatim>\<open>shutil.copy(src, dst)\<close> for a destination that is a file path: the bytes of the source
  replace or create the destination; a missing source raises.
\<close>

definition shutil_copy :: "string \<Rightarrow> string \<Rightarrow> unit io" where
  "shutil_copy src dst w =
     (case files w src of
        None \<Rightarrow>
          (if src \<in> dirs w then (Inl (IsADirectoryError src), w)
           else (Inl (FileNotFoundError src), w))
      | Some b \<Rightarrow> (Inr (), w\<lparr>files := (files w)(dst \<mapsto> b)\<rparr>))"

text \<open>
  Permission bits of a directory. A process that is not root needs the owner's search
  bit (\<^verbatim>\<open>0o100\<close>) to reach a file in the directory and the owner's write bit (\<^verbatim>\<open>0o200\<close>)
  to create one there.
\<close>

definition owner_x :: "nat \<Rightarrow> bool" where
  "owner_x m = ((m div 64) mod 2 = 1)"

definition owner_w :: "nat \<Rightarrow> bool" where
  "owner_w m = ((m div 128) mod 2 = 1)"

text \<open>
  \<^verbatim>\<open>os.makedirs(path)\<close> for a path without missing parents: the directory is created with
  the bits \<^verbatim>\<open>0o777 & ~umask\<close>; a directory or a regular file of that name (with or without
  the trailing slash) makes it raise.
\<close>

definition makedirs_mode :: "nat \<Rightarrow> nat" where
  "makedirs_mode um = 511 - um mod 512"

definition strip_slash :: "string \<Rightarrow> string" where
  "strip_slash p = (if p \<noteq> [] \<and> last p = CHR ''/'' then butlast p else p)"

definition os_makedirs :: "string \<Rightarrow> unit io" where
  "os_makedirs path w =
     (if path \<in> dirs w \<or> files w path \<noteq> None \<or> files w (strip_slash path) \<noteq> None
      then (Inl (FileExistsError path), w)
      else (Inr (), w\<lparr>dirs := insert path (dirs w),
                      dir_mode := (dir_mode w)(path := makedirs_mode (umask w))\<rparr>))"

text \<open>
  \<^verbatim>\<open>shutil.copy(src, dst)\<close> for a destination inside the directory \<open>folder\<close>: the source
  is opened first, then the destination, which the permission bits of the directory may
  forbid.
\<close>

definition shutil_copy_into :: "string \<Rightarrow> string \<Rightarrow> string \<Rightarrow> unit io" where
  "shutil_copy_into folder src dst w =
     (case files w src of
        None \<Rightarrow>
          (if src \<in> dirs w then (Inl (IsADirectoryError src), w)
           else (Inl (FileNotFoundError src), w))
      | Some b \<Rightarrow>
          if euid w \<noteq> 0 \<and>
             \<not> (owner_x (dir_mode w folder) \<and>
                  (files w dst \<noteq> None \<or> owner_w (dir_mode w folder)))
          then (Inl (PermissionError dst), w)
          else (Inr (), w\<lparr>files := (files w)(dst \<mapsto> b)\<rparr>))"

text \<open>A name between single quotes, as \<^verbatim>\<open>f"'{title}'"\<close> prints it.\<close>

definition quoted :: "string \<Rightarrow> string" where
  "quoted s = CHR 0x27 # s @ [CHR 0x27]"

text \<open>What \<^verbatim>\<open>Fernet(key)\<close> raises for a key it does not accept, in all variants.\<close>

definition fernet_key_error :: exn where
  "fernet_key_error = ValueError ''Fernet key must be 32 url-safe base64-encoded bytes.''"

subsection \<open>TaskManager.py: the storage layer\<close>

definition load_key :: "platform \<Rightarrow> bytes io" where
  "load_key X w =
     (case environ w ''ENCRYPTION_KEY'' of
        None \<Rightarrow> (Inl (ValueError ''ENCRYPTION_KEY environment variable not set''), w)
      | Some key \<Rightarrow>
          if key = [] then (Inl (ValueError ''ENCRYPTION_KEY environment variable not set''), w)
          else (Inr (str_encode X key), w))"

definition encrypt_data :: "platform \<Rightarrow> string \<Rightarrow> bytes io" where
  "encrypt_data X data w =
     (case load_key X w of
        (Inl e, w1) \<Rightarrow> (Inl e, w1)
      | (Inr key, w1) \<Rightarrow>
          if \<not> fernet_valid_key X key then (Inl fernet_key_error, w1)
          else (Inr (fernet_encrypt X key (entropy w1) (str_encode X data)),
                w1\<lparr>entropy := Suc (entropy w1)\<rparr>))"

definition decrypt_data :: "platform \<Rightarrow> bytes \<Rightarrow> string io" where
  "decrypt_data X encrypted_data w =
     (case load_key X w of
        (Inl e, w1) \<Rightarrow> (Inl e, w1)
      | (Inr key, w1) \<Rightarrow>
          if \<not> fernet_valid_key X key then (Inl fernet_key_error, w1)
          else (case fernet_decrypt X key encrypted_data of
                  None \<Rightarrow> (Inl InvalidToken, w1)
                | Some b \<Rightarrow>
                    (case bytes_decode X b of
                       None \<Rightarrow> (Inl UnicodeDecodeError, w1)
                     | Some decrypted \<Rightarrow> (Inr decrypted, w1))))"

text \<open>
  \<^verbatim>\<open>open(filepath, 'wb')\<close> creates the empty file before \<^verbatim>\<open>encrypt_data\<close> runs inside the
  \<^verbatim>\<open>with\<close> block, so a failing encryption leaves an empty file behind.
\<close>

definition secure_file_creation :: "platform \<Rightarrow> string \<Rightarrow> unit io" where
  "secure_file_creation X filepath w =
     (if \<not> path_exists w filepath then
        (let w1 = w\<lparr>umask := 127\<rparr>;
             w2 = w1\<lparr>files := (files w1)(filepath \<mapsto> [])\<rparr>
         in case encrypt_data X (json_dumps X []) w2 of
              (Inl e, w3) \<Rightarrow> (Inl e, w3)
            | (Inr enc, w3) \<Rightarrow>
                (Inr (), logging_info (''File created with secure permissions: '' @ filepath)
                           (w3\<lparr>files := (files w3)(filepath \<mapsto> enc)\<rparr>)))
      else (Inr (), w))"

definition backup_path :: "string \<Rightarrow> string" where
  "backup_path timestamp = BACKUP_FOLDER @ ''tasks_'' @ timestamp @ ''.json''"

text \<open>
  The umask that \<^verbatim>\<open>secure_file_creation\<close> sets stays in force for the rest of the process,
  so a backup folder made after the store was created gets the bits \<^verbatim>\<open>0o600\<close>, and the copy
  into it is refused to every user but root.
\<close>

definition create_backup :: "platform \<Rightarrow> unit io" where
  "create_backup X w =
     (case (if \<not> path_exists w BACKUP_FOLDER then os_makedirs BACKUP_FOLDER w
            else (Inr (), w)) of
        (Inl e, w1) \<Rightarrow> (Inl e, w1)
      | (Inr u, w1) \<Rightarrow>
          (let timestamp = strftime_now X (clock w1);
               w2 = w1\<lparr>clock := Suc (clock w1)\<rparr>;
               backup_file = backup_path timestamp
           in case shutil_copy_into BACKUP_FOLDER FILE backup_file w2 of
                (Inl e, w3) \<Rightarrow> (Inl e, w3)
              | (Inr u', w3) \<Rightarrow>
                  (Inr (), logging_info (''Backup created: '' @ backup_file) w3)))"

text \<open>
  When the backup folder can take a snapshot: it is a directory the process may search
  and write, or it does not exist, nothing is in its way and the umask leaves a new
  directory these two bits.
\<close>

definition backup_folder_usable :: "world \<Rightarrow> bool" where
  "backup_folder_usable w =
     (if BACKUP_FOLDER \<in> dirs w then
        euid w = 0 \<or> (owner_x (dir_mode w BACKUP_FOLDER) \<and> owner_w (dir_mode w BACKUP_FOLDER))
      else
        files w BACKUP_FOLDER = None \<and> files w (strip_slash BACKUP_FOLDER) = None \<and>
        (euid w = 0 \<or>
         (owner_x (makedirs_mode (umask w)) \<and> owner_w (makedirs_mode (umask w)))))"

definition calculate_hash :: "platform \<Rightarrow> string \<Rightarrow> string" where
  "calculate_hash X data = sha256_hexdigest X (str_encode X data)"

definition save_hash :: "platform \<Rightarrow> string \<Rightarrow> unit io" where
  "save_hash X hash_value w =
     (if HASH_FILE \<in> dirs w then (Inl (IsADirectoryError HASH_FILE), w)
      else (Inr (), w\<lparr>files := (files w)(HASH_FILE \<mapsto> str_encode X hash_value)\<rparr>))"

definition verify_integrity :: "platform \<Rightarrow> string \<Rightarrow> bool io" where
  "verify_integrity X data w =
     (if \<not> path_exists w HASH_FILE then
        (Inr True, logging_warning ''Hash file not found. Integrity check skipped.'' w)
      else
        (case files w HASH_FILE of
           None \<Rightarrow> (Inl (IsADirectoryError HASH_FILE), w)
         | Some b \<Rightarrow>
             (case bytes_decode X b of
                None \<Rightarrow> (Inl UnicodeDecodeError, w)
              | Some stored_hash \<Rightarrow>
                  (let calculated_hash = calculate_hash X data in
                   if stored_hash = calculated_hash then
                     (Inr True, logging_info ''Data integrity verified.'' w)
                   else
                     (Inr False,
                      logging_error
                        ''Data integrity check failed! Possible tampering detected.'' w)))))"

definition load_tasks :: "platform \<Rightarrow> task list io" where
  "load_tasks X w =
     (case secure_file_creation X FILE w of
        (Inl e, w1) \<Rightarrow> (Inl e, w1)
      | (Inr u, w1) \<Rightarrow>
          (case files w1 FILE of
             None \<Rightarrow> (Inl (IsADirectoryError FILE), w1)
           | Some encrypted_data \<Rightarrow>
               if encrypted_data = [] then (Inr [], w1)
               else
                 (case decrypt_data X encrypted_data w1 of
                    (Inl e, w2) \<Rightarrow> (Inl e, w2)
                  | (Inr decrypted_data, w2) \<Rightarrow>
                      (case verify_integrity X decrypted_data w2 of
                         (Inl e, w3) \<Rightarrow> (Inl e, w3)
                       | (Inr ok, w3) \<Rightarrow>
                           if ok then
                             (case json_loads X decrypted_data of
                                None \<Rightarrow> (Inl JSONDecodeError, w3)
                              | Some tasks \<Rightarrow> (Inr tasks, w3))
                           else
                             (Inr [],
                              logging_error
                                ''Data integrity verification failed. Returning empty task list.''
                                w3)))))"

definition save_tasks :: "platform \<Rightarrow> task list \<Rightarrow> unit io" where
  "save_tasks X tasks w =
     (case create_backup X w of
        (Inl e, w1) \<Rightarrow> (Inl e, w1)
      | (Inr u, w1) \<Rightarrow>
          (let data = json_dumps X tasks in
           case encrypt_data X data w1 of
             (Inl e, w2) \<Rightarrow> (Inl e, w2)
           | (Inr encrypted_data, w2) \<Rightarrow>
               (let w3 = w2\<lparr>files := (files w2)(FILE \<mapsto> encrypted_data)\<rparr>;
                    hash_value = calculate_hash X data
                in case save_hash X hash_value w3 of
                     (Inl e, w4) \<Rightarrow> (Inl e, w4)
                   | (Inr u', w4) \<Rightarrow>
                       (Inr (),
                        logging_info
                          ''Tasks successfully saved, encrypted, and integrity hash updated.''
                          w4))))"

subsection \<open>TaskManager.py: the commands\<close>

definition add_task :: "platform \<Rightarrow> unit io" where
  "add_task X w =
     (case py_input ''Enter task title: '' w of
        (Inl e, w1) \<Rightarrow> (Inl e, w1)
      | (Inr l1, w1) \<Rightarrow>
          (let title0 = strip l1 in
           if title0 = [] then
             (Inr (), py_print ''Error: Task title cannot be empty.''
                        (logging_error ''Task title cannot be empty'' w1))
           else
             (case py_input ''Enter task description: '' w1 of
                (Inl e, w2) \<Rightarrow> (Inl e, w2)
              | (Inr l2, w2) \<Rightarrow>
                  (let description0 = strip l2 in
                   if description0 = [] then
                     (Inr (), py_print ''Error: Task description cannot be empty.''
                                (logging_error ''Task description cannot be empty'' w2))
                   else
                     (case load_tasks X w2 of
                        (Inl e, w3) \<Rightarrow> (Inl e, w3)
                      | (Inr tasks, w3) \<Rightarrow>
                          (let new_task = \<lparr>task_id = int (length tasks) + 1, title = title0,
                                           description = description0, status = ''not done''\<rparr>
                           in case save_tasks X (tasks @ [new_task]) w3 of
                                (Inl e, w4) \<Rightarrow> (Inl e, w4)
                              | (Inr u, w4) \<Rightarrow>
                                  (Inr (),
                                   py_print (''Task '' @ quoted title0 @ '' added.'')
                                     (logging_info
                                        (''Task '' @ quoted title0 @ '' added with ID ''
                                           @ str_int (task_id new_task)) w4))))))))"

text \<open>
  The \<^verbatim>\<open>while True\<close> loop of \<^verbatim>\<open>get_valid_task_id\<close>: every round reads one line, so the
  loop ends at the latest when standard input does (\<^verbatim>\<open>EOFError\<close>).
\<close>

function get_valid_task_id_loop :: "platform \<Rightarrow> task list \<Rightarrow> int io" where
  "get_valid_task_id_loop X tasks w =
     (case py_input ''Enter task ID: '' w of
        (Inl e, w1) \<Rightarrow> (Inl e, w1)
      | (Inr l, w1) \<Rightarrow>
          (case py_int X (strip l) of
             None \<Rightarrow>
               get_valid_task_id_loop X tasks
                 (py_print ''Error: Please enter a valid numeric task ID.''
                    (logging_error ''Invalid input for task ID. Numeric value required.'' w1))
           | Some tid \<Rightarrow>
               if \<not> list_ex (\<lambda>t. task_id t = tid) tasks then
                 get_valid_task_id_loop X tasks
                   (py_print (''Error: Task ID '' @ str_int tid @ '' does not exist.'')
                      (logging_error (''Task ID '' @ str_int tid @ '' not found.'') w1))
               else (Inr tid, w1)))"
  by pat_completeness auto
termination
  by (relation "measure (\<lambda>(X, tasks, w). length (stdin w))")
     (auto simp: py_input_def py_print_def logging_error_def Let_def split: list.splits)

declare get_valid_task_id_loop.simps [simp del]

definition get_valid_task_id :: "platform \<Rightarrow> int io" where
  "get_valid_task_id X w =
     (case load_tasks X w of
        (Inl e, w1) \<Rightarrow> (Inl e, w1)
      | (Inr tasks, w1) \<Rightarrow> get_valid_task_id_loop X tasks w1)"

text \<open>The \<^verbatim>\<open>while True\<close> loop of \<^verbatim>\<open>update_task_status\<close> that reads the choice.\<close>

function status_choice_loop :: "string io" where
  "status_choice_loop w =
     (case py_input ''Enter your choice (1 or 2): '' w of
        (Inl e, w1) \<Rightarrow> (Inl e, w1)
      | (Inr l, w1) \<Rightarrow>
          (let status_choice = strip l in
           if status_choice = ''1'' then (Inr ''in progress'', w1)
           else if status_choice = ''2'' then (Inr ''done'', w1)
           else status_choice_loop
                  (py_print ''Error: Invalid choice. Please enter 1 or 2.''
                     (logging_error (''Invalid choice for task status: '' @ status_choice) w1))))"
  by pat_completeness auto
termination
  by (relation "measure (\<lambda>w. length (stdin w))")
     (auto simp: py_input_def py_print_def logging_error_def Let_def split: list.splits)

declare status_choice_loop.simps [simp del]

text \<open>
  The \<^verbatim>\<open>for task in tasks\<close> loop of \<^verbatim>\<open>update_task_status\<close>. The list is mutated in
  place: \<open>visited\<close> holds the tasks already visited (as they are now), the third list those
  still to visit. Every matching task triggers a save of the whole list.
\<close>

fun update_task_status_for ::
  "platform \<Rightarrow> int \<Rightarrow> string \<Rightarrow> task list \<Rightarrow> task list \<Rightarrow> unit io" where
  "update_task_status_for X tid new_status visited [] w = (Inr (), w)"
| "update_task_status_for X tid new_status visited (t # rest) w =
     (if task_id t = tid then
        (let t' = t\<lparr>status := new_status\<rparr> in
         case save_tasks X (visited @ t' # rest) w of
           (Inl e, w1) \<Rightarrow> (Inl e, w1)
         | (Inr u, w1) \<Rightarrow>
             update_task_status_for X tid new_status (visited @ [t']) rest
               (py_print (''Task ID '' @ str_int tid @ '' status updated to ''
                            @ quoted new_status @ ''.'')
                  (logging_info (''Task ID '' @ str_int tid @ '' status updated to ''
                                   @ quoted new_status) w1)))
      else update_task_status_for X tid new_status (visited @ [t]) rest w)"

definition update_task_status :: "platform \<Rightarrow> unit io" where
  "update_task_status X w =
     (case get_valid_task_id X w of
        (Inl e, w1) \<Rightarrow> (Inl e, w1)
      | (Inr tid, w1) \<Rightarrow>
          (let w2 = py_print (''Is the task (ID '' @ str_int tid @ '') 1. In progress 2. Done'')
                      w1
           in case status_choice_loop w2 of
                (Inl e, w3) \<Rightarrow> (Inl e, w3)
              | (Inr new_status, w3) \<Rightarrow>
                  (case load_tasks X w3 of
                     (Inl e, w4) \<Rightarrow> (Inl e, w4)
                   | (Inr tasks, w4) \<Rightarrow> update_task_status_for X tid new_status [] tasks w4)))"

subsection \<open>tracker\_Encryption.py\<close>

definition generate_key_enc :: "platform \<Rightarrow> unit io" where
  "generate_key_enc X w =
     (let key = fernet_generate_key X (entropy w);
          w1 = w\<lparr>entropy := Suc (entropy w)\<rparr>;
          w2 = w1\<lparr>files := (files w1)(KEY_FILE \<mapsto> key)\<rparr>
      in (Inr (), py_print (''Encryption key created: '' @ KEY_FILE) w2))"

definition load_key_enc :: "platform \<Rightarrow> bytes io" where
  "load_key_enc X w =
     (case (if \<not> path_exists w KEY_FILE then
              generate_key_enc X (py_print ''Encryption key not found. Generating new key...'' w)
            else (Inr (), py_print (''Encryption key loaded from '' @ KEY_FILE) w)) of
        (Inl e, w1) \<Rightarrow> (Inl e, w1)
      | (Inr u, w1) \<Rightarrow>
          (case files w1 KEY_FILE of
             None \<Rightarrow> (Inl (IsADirectoryError KEY_FILE), w1)
           | Some key \<Rightarrow> (Inr key, w1)))"

definition encrypt_data_enc :: "platform \<Rightarrow> string \<Rightarrow> bytes io" where
  "encrypt_data_enc X data w =
     (case load_key_enc X w of
        (Inl e, w1) \<Rightarrow> (Inl e, w1)
      | (Inr key, w1) \<Rightarrow>
          if \<not> fernet_valid_key X key then (Inl fernet_key_error, w1)
          else (Inr (fernet_encrypt X key (entropy w1) (str_encode X data)),
                w1\<lparr>entropy := Suc (entropy w1)\<rparr>))"

definition decrypt_data_enc :: "platform \<Rightarrow> bytes \<Rightarrow> string io" where
  "decrypt_data_enc X encrypted_data w =
     (case load_key_enc X w of
        (Inl e, w1) \<Rightarrow> (Inl e, w1)
      | (Inr key, w1) \<Rightarrow>
          if \<not> fernet_valid_key X key then (Inl fernet_key_error, w1)
          else (case fernet_decrypt X key encrypted_data of
                  None \<Rightarrow> (Inl InvalidToken, w1)
                | Some b \<Rightarrow>
                    (case bytes_decode X b of
                       None \<Rightarrow> (Inl UnicodeDecodeError, w1)
                     | Some decrypted \<Rightarrow> (Inr decrypted, w1))))"

definition secure_file_creation_enc :: "platform \<Rightarrow> string \<Rightarrow> unit io" where
  "secure_file_creation_enc X filepath w =
     (if \<not> path_exists w filepath then
        (let w1 = w\<lparr>umask := 127\<rparr>;
             w2 = w1\<lparr>files := (files w1)(filepath \<mapsto> [])\<rparr>
         in case encrypt_data_enc X (json_dumps X []) w2 of
              (Inl e, w3) \<Rightarrow> (Inl e, w3)
            | (Inr enc, w3) \<Rightarrow> (Inr (), w3\<lparr>files := (files w3)(filepath \<mapsto> enc)\<rparr>))
      else (Inr (), w))"

definition backup_tasks_file_enc :: "unit io" where
  "backup_tasks_file_enc w =
     (if path_exists w FILE then
        (let backup_file = FILE @ ''.bak'' in
         case shutil_copy FILE backup_file w of
           (Inl e, w1) \<Rightarrow> (Inl e, w1)
         | (Inr u, w1) \<Rightarrow> (Inr (), py_print (''Encrypted backup created: '' @ backup_file) w1))
      else (Inr (), w))"

definition load_tasks_enc :: "platform \<Rightarrow> task list io" where
  "load_tasks_enc X w =
     (case secure_file_creation_enc X FILE w of
        (Inl e, w1) \<Rightarrow> (Inl e, w1)
      | (Inr u, w1) \<Rightarrow>
          (case files w1 FILE of
             None \<Rightarrow> (Inl (IsADirectoryError FILE), w1)
           | Some encrypted_data \<Rightarrow>
               if encrypted_data = [] then (Inr [], w1)
               else
                 (case decrypt_data_enc X encrypted_data w1 of
                    (Inl e, w2) \<Rightarrow> (Inl e, w2)
                  | (Inr decrypted_data, w2) \<Rightarrow>
                      (case json_loads X decrypted_data of
                         None \<Rightarrow> (Inl JSONDecodeError, w2)
                       | Some tasks \<Rightarrow> (Inr tasks, w2)))))"

text \<open>
  Here the store is opened for writing (and so truncated) before the data is serialised
  and encrypted.
\<close>

definition save_tasks_enc :: "platform \<Rightarrow> task list \<Rightarrow> unit io" where
  "save_tasks_enc X tasks w =
     (case backup_tasks_file_enc w of
        (Inl e, w1) \<Rightarrow> (Inl e, w1)
      | (Inr u, w1) \<Rightarrow>
          (let w2 = w1\<lparr>files := (files w1)(FILE \<mapsto> [])\<rparr>;
               data = json_dumps X tasks
           in case encrypt_data_enc X data w2 of
                (Inl e, w3) \<Rightarrow> (Inl e, w3)
              | (Inr encrypted_data, w3) \<Rightarrow>
                  (Inr (), w3\<lparr>files := (files w3)(FILE \<mapsto> encrypted_data)\<rparr>)))"

definition add_task_enc :: "platform \<Rightarrow> unit io" where
  "add_task_enc X w =
     (case py_input ''Enter task title: '' w of
        (Inl e, w1) \<Rightarrow> (Inl e, w1)
      | (Inr l1, w1) \<Rightarrow>
          (let title0 = strip l1 in
           if title0 = [] then (Inr (), py_print ''Error: Task title cannot be empty.'' w1)
           else
             (case py_input ''Enter task description: '' w1 of
                (Inl e, w2) \<Rightarrow> (Inl e, w2)
              | (Inr l2, w2) \<Rightarrow>
                  (let description0 = strip l2 in
                   if description0 = [] then
                     (Inr (), py_print ''Error: Task description cannot be empty.'' w2)
                   else
                     (case load_tasks_enc X w2 of
                        (Inl e, w3) \<Rightarrow> (Inl e, w3)
                      | (Inr tasks, w3) \<Rightarrow>
                          (let new_task = \<lparr>task_id = int (length tasks) + 1, title = title0,
                                           description = description0, status = ''not done''\<rparr>
                           in case save_tasks_enc X (tasks @ [new_task]) w3 of
                                (Inl e, w4) \<Rightarrow> (Inl e, w4)
                              | (Inr u, w4) \<Rightarrow>
                                  (Inr (),
                                   py_print (''Task '' @ quoted title0 @ '' added.'') w4)))))))"

function get_valid_task_id_loop_enc :: "platform \<Rightarrow> task list \<Rightarrow> int io" where
  "get_valid_task_id_loop_enc X tasks w =
     (case py_input ''Enter task ID: '' w of
        (Inl e, w1) \<Rightarrow> (Inl e, w1)
      | (Inr l, w1) \<Rightarrow>
          (case py_int X (strip l) of
             None \<Rightarrow>
               get_valid_task_id_loop_enc X tasks
                 (py_print ''Error: Please enter a valid numeric task ID.'' w1)
           | Some tid \<Rightarrow>
               if \<not> list_ex (\<lambda>t. task_id t = tid) tasks then
                 get_valid_task_id_loop_enc X tasks
                   (py_print (''Error: Task ID '' @ str_int tid @ '' does not exist.'') w1)
               else (Inr tid, w1)))"
  by pat_completeness auto
termination
  by (relation "measure (\<lambda>(X, tasks, w). length (stdin w))")
     (auto simp: py_input_def py_print_def Let_def split: list.splits)

declare get_valid_task_id_loop_enc.simps [simp del]

definition get_valid_task_id_enc :: "platform \<Rightarrow> int io" where
  "get_valid_task_id_enc X w =
     (case load_tasks_enc X w of
        (Inl e, w1) \<Rightarrow> (Inl e, w1)
      | (Inr tasks, w1) \<Rightarrow> get_valid_task_id_loop_enc X tasks w1)"

function status_choice_loop_enc :: "string io" where
  "status_choice_loop_enc w =
     (case py_input ''Enter your choice (1 or 2): '' w of
        (Inl e, w1) \<Rightarrow> (Inl e, w1)
      | (Inr l, w1) \<Rightarrow>
          (let status_choice = strip l in
           if status_choice = ''1'' then (Inr ''in progress'', w1)
           else if status_choice = ''2'' then (Inr ''done'', w1)
           else status_choice_loop_enc
                  (py_print ''Error: Invalid choice. Please enter 1 or 2.'' w1)))"
  by pat_completeness auto
termination
  by (relation "measure (\<lambda>w. length (stdin w))")
     (auto simp: py_input_def py_print_def Let_def split: list.splits)

declare status_choice_loop_enc.simps [simp del]

fun update_task_status_for_enc ::
  "platform \<Rightarrow> int \<Rightarrow> string \<Rightarrow> task list \<Rightarrow> task list \<Rightarrow> unit io" where
  "update_task_status_for_enc X tid new_status visited [] w = (Inr (), w)"
| "update_task_status_for_enc X tid new_status visited (t # rest) w =
     (if task_id t = tid then
        (let t' = t\<lparr>status := new_status\<rparr> in
         case save_tasks_enc X (visited @ t' # rest) w of
           (Inl e, w1) \<Rightarrow> (Inl e, w1)
         | (Inr u, w1) \<Rightarrow>
             update_task_status_for_enc X tid new_status (visited @ [t']) rest
               (py_print (''Task ID '' @ str_int tid @ '' status updated to ''
                            @ quoted new_status @ ''.'') w1))
      else update_task_status_for_enc X tid new_status (visited @ [t]) rest w)"

definition update_task_status_enc :: "platform \<Rightarrow> unit io" where
  "update_task_status_enc X w =
     (case get_valid_task_id_enc X w of
        (Inl e, w1) \<Rightarrow> (Inl e, w1)
      | (Inr tid, w1) \<Rightarrow>
          (let w2 = py_print (''Is the task (ID '' @ str_int tid @ '') 1. In progress 2. Done'')
                      w1
           in case status_choice_loop_enc w2 of
                (Inl e, w3) \<Rightarrow> (Inl e, w3)
              | (Inr new_status, w3) \<Rightarrow>
                  (case load_tasks_enc X w3 of
                     (Inl e, w4) \<Rightarrow> (Inl e, w4)
                   | (Inr tasks, w4) \<Rightarrow>
                       update_task_status_for_enc X tid new_status [] tasks w4)))"

subsection \<open>tracker\_Log.py: the backup step\<close>

definition backup_tasks_file_log :: "unit io" where
  "backup_tasks_file_log w =
     (if path_exists w FILE then
        (let backup_file = FILE @ ''.bak'' in
         case shutil_copy FILE backup_file w of
           (Inl e, w1) \<Rightarrow> (Inl e, w1)
         | (Inr u, w1) \<Rightarrow> (Inr (), logging_info (''Backup created: '' @ backup_file) w1))
      else (Inr (), w))"

subsection \<open>Successive saves\<close>






subsection \<open>A small platform to run the model on\<close>

text \<open>
  An instance of the library parameters on which the definitions can be evaluated: a
  cipher that prefixes the plaintext with a nonce byte and the two-byte key, a digest
  that spells its input backwards, a line-oriented serialisation of task lists, one byte per
  character, decimal integers, and a clock that never shows the same second twice.
\<close>

fun split_on :: "char \<Rightarrow> string \<Rightarrow> string list" where
  "split_on c [] = [[]]"
| "split_on c (x # xs) =
     (case split_on c xs of
        [] \<Rightarrow> [[x]]
      | y # ys \<Rightarrow> if x = c then [] # y # ys else (x # y) # ys)"

fun digits_nat :: "string \<Rightarrow> nat \<Rightarrow> nat option" where
  "digits_nat [] acc = Some acc"
| "digits_nat (c # cs) acc =
     (let n = (of_char c :: nat) in
      if 48 \<le> n \<and> n \<le> 57 then digits_nat cs (10 * acc + (n - 48)) else None)"

definition demo_int :: "string \<Rightarrow> int option" where
  "demo_int s =
     (case s of
        [] \<Rightarrow> None
      | c # cs \<Rightarrow>
          if c = CHR ''-'' then
            (if cs = [] then None else map_option (\<lambda>n. - int n) (digits_nat cs 0))
          else map_option int (digits_nat s 0))"

definition demo_dump_task :: "task \<Rightarrow> string" where
  "demo_dump_task t =
     str_int (task_id t) @ ''|'' @ title t @ ''|'' @ description t @ ''|'' @ status t @ '';''"

definition demo_load_task :: "string \<Rightarrow> task option" where
  "demo_load_task s =
     (case split_on CHR ''|'' s of
        [i, t, d, st] \<Rightarrow>
          (case demo_int i of
             None \<Rightarrow> None
           | Some n \<Rightarrow> Some \<lparr>task_id = n, title = t, description = d, status = st\<rparr>)
      | _ \<Rightarrow> None)"

fun all_some :: "'a option list \<Rightarrow> 'a list option" where
  "all_some [] = Some []"
| "all_some (x # xs) =
     (case x of None \<Rightarrow> None | Some y \<Rightarrow> map_option ((#) y) (all_some xs))"

definition demo_dumps :: "task list \<Rightarrow> string" where
  "demo_dumps ts = ''['' @ concat (map demo_dump_task ts) @ '']''"

definition demo_loads :: "string \<Rightarrow> task list option" where
  "demo_loads s =
     (case s of
        [] \<Rightarrow> None
      | c # cs \<Rightarrow>
          if c \<noteq> CHR ''['' \<or> cs = [] \<or> last cs \<noteq> CHR '']'' then None
          else all_some (map demo_load_task (butlast (split_on CHR '';'' (butlast cs)))))"

definition demo_encode :: "string \<Rightarrow> bytes" where
  "demo_encode s = s"

definition demo_decode :: "bytes \<Rightarrow> string option" where
  "demo_decode b = Some b"

definition demo_decrypt :: "bytes \<Rightarrow> bytes \<Rightarrow> bytes option" where
  "demo_decrypt k t =
     (case t of
        [] \<Rightarrow> None
      | n # r \<Rightarrow> if take (length k) r = k then Some (drop (length k) r) else None)"

definition demo_platform :: platform where
  "demo_platform =
     \<lparr>fernet_valid_key = (\<lambda>k. length k = 2),
      fernet_encrypt = (\<lambda>k n p. char_of n # k @ p),
      fernet_decrypt = demo_decrypt,
      fernet_generate_key = (\<lambda>n. [CHR ''K'', char_of (48 + n)]),
      sha256_hexdigest = rev,
      json_dumps = demo_dumps,
      json_loads = demo_loads,
      str_encode = demo_encode,
      bytes_decode = demo_decode,
      py_int = demo_int,
      strftime_now = (\<lambda>n. str_nat n)\<rparr>"


text \<open>
  Worlds to start from, all of an ordinary user (not root): an empty working directory
  without the key binding; the same with the binding \<^verbatim>\<open>ENCRYPTION_KEY=k1\<close>; the directory
  when \<^verbatim>\<open>TaskManager.py\<close> has just created the store (the umask is \<^verbatim>\<open>0o177\<close> now); the
  same directory in a later run of the program, which starts with the umask \<^verbatim>\<open>0o022\<close> of
  the shell again; and directories after a first save.
\<close>

definition fresh_world :: world where
  "fresh_world =
     \<lparr>environ = Map.empty, files = Map.empty, dirs = {}, umask = 18, logged = [],
      stdin = [], stdout = [], entropy = 0, clock = 0, euid = 1000, dir_mode = (\<lambda>p. 0)\<rparr>"

definition keyed_world :: world where
  "keyed_world = fresh_world\<lparr>environ := [''ENCRYPTION_KEY'' \<mapsto> ''k1'']\<rparr>"

definition task_A :: task where
  "task_A = \<lparr>task_id = 1, title = ''A'', description = ''d'', status = ''not done''\<rparr>"

definition created_world :: world where
  "created_world = snd (load_tasks demo_platform keyed_world)"

definition later_run_world :: world where
  "later_run_world = created_world\<lparr>umask := 18, stdout := []\<rparr>"

definition stored_world :: world where
  "stored_world = snd (save_tasks demo_platform [task_A] later_run_world)"

definition tampered_world :: world where
  "tampered_world = stored_world\<lparr>files := (files stored_world)(HASH_FILE \<mapsto> demo_encode ''0000'')\<rparr>"


text \<open>
  The first run of the program by an ordinary user, who is about to add a task: nothing
  on disk yet, two lines typed.
\<close>

definition first_run_world :: world where
  "first_run_world = keyed_world\<lparr>stdin := [''A'', ''d'']\<rparr>"

definition task_B :: task where
  "task_B = \<lparr>task_id = 2, title = ''B'', description = ''e'', status = ''not done''\<rparr>"

text \<open>
  Worlds in which a status is about to be changed: two tasks stored by earlier runs, five
  lines typed.
\<close>

definition update_input_world :: world where
  "update_input_world =
     \<lparr>environ = [''ENCRYPTION_KEY'' \<mapsto> ''k1''],
      files = [FILE \<mapsto> fernet_encrypt demo_platform (demo_encode ''k1'') 2
                        (demo_encode (demo_dumps [task_A, task_B])),
               HASH_FILE \<mapsto> demo_encode (calculate_hash demo_platform
                                             (demo_dumps [task_A, task_B]))],
      dirs = {BACKUP_FOLDER}, umask = 18, logged = [],
      stdin = [''x'', ''5'', ''2'', ''3'', ''2''], stdout = [], entropy = 3, clock = 2,
      euid = 1000, dir_mode = (\<lambda>p. 493)\<rparr>"

definition update_input_world1 :: world where
  "update_input_world1 = snd (get_valid_task_id demo_platform update_input_world)"

definition update_input_world3 :: world where
  "update_input_world3 =
     snd (status_choice_loop
            (py_print (''Is the task (ID '' @ str_int 2 @ '') 1. In progress 2. Done'')
               update_input_world1))"

definition update_input_world4 :: world where
  "update_input_world4 = snd (load_tasks demo_platform update_input_world3)"

definition update_input_world_enc :: world where
  "update_input_world_enc =
     \<lparr>environ = Map.empty,
      files = [KEY_FILE \<mapsto> ''K0'',
               FILE \<mapsto> fernet_encrypt demo_platform ''K0'' 3
                        (demo_encode (demo_dumps [task_A, task_B]))],
      dirs = {}, umask = 18, logged = [],
      stdin = [''x'', ''5'', ''2'', ''3'', ''2''], stdout = [], entropy = 4, clock = 0,
      euid = 1000, dir_mode = (\<lambda>p. 0)\<rparr>"

definition update_input_world_enc1 :: world where
  "update_input_world_enc1 = snd (get_valid_task_id_enc demo_platform update_input_world_enc)"

definition update_input_world_enc3 :: world where
  "update_input_world_enc3 =
     snd (status_choice_loop_enc
            (py_print (''Is the task (ID '' @ str_int 2 @ '') 1. In progress 2. Done'')
               update_input_world_enc1))"

definition update_input_world_enc4 :: world where
  "update_input_world_enc4 = snd (load_tasks_enc demo_platform update_input_world_enc3)"

section \<open>Properties\<close>

subsection \<open>Paths\<close>

lemma path_neqs [simp]:
  "backup_path ts \<noteq> FILE" "backup_path ts \<noteq> HASH_FILE"
  "FILE \<noteq> backup_path ts" "HASH_FILE \<noteq> backup_path ts"
  "FILE \<noteq> HASH_FILE" "HASH_FILE \<noteq> FILE"
  "FILE @ ''.bak'' \<noteq> FILE" "FILE \<noteq> FILE @ ''.bak''"
  "FILE @ ''.bak'' \<noteq> KEY_FILE" "KEY_FILE \<noteq> FILE @ ''.bak''" "KEY_FILE \<noteq> FILE" "FILE \<noteq> KEY_FILE"
  by (simp_all add: backup_path_def FILE_def HASH_FILE_def BACKUP_FOLDER_def KEY_FILE_def)

lemma backup_path_inj [simp]: "backup_path a = backup_path b \<longleftrightarrow> a = b"
  by (simp add: backup_path_def)


lemma BACKUP_FOLDER_neqs [simp]:
  "HASH_FILE \<noteq> BACKUP_FOLDER" "BACKUP_FOLDER \<noteq> HASH_FILE"
  "FILE \<noteq> BACKUP_FOLDER" "BACKUP_FOLDER \<noteq> FILE"
  "strip_slash BACKUP_FOLDER \<noteq> FILE" "strip_slash BACKUP_FOLDER \<noteq> HASH_FILE"
  "backup_path ts \<noteq> BACKUP_FOLDER" "backup_path ts \<noteq> strip_slash BACKUP_FOLDER"
  by (simp_all add: HASH_FILE_def BACKUP_FOLDER_def FILE_def strip_slash_def backup_path_def)

lemma backup_folder_usable_console [simp]:
  "backup_folder_usable (py_print msg w) = backup_folder_usable w"
  "backup_folder_usable (logging_info msg w) = backup_folder_usable w"
  "backup_folder_usable (logging_warning msg w) = backup_folder_usable w"
  "backup_folder_usable (logging_error msg w) = backup_folder_usable w"
  by (simp_all add: backup_folder_usable_def py_print_def logging_info_def logging_warning_def
      logging_error_def)

subsection \<open>Key provider\<close>

text \<open>
  C6. With the key taken from the environment, \<open>load_key\<close> raises the configuration error
  (\<^verbatim>\<open>ValueError("ENCRYPTION_KEY environment variable not set")\<close>) whenever the binding
  \<^verbatim>\<open>ENCRYPTION_KEY\<close> is absent, and leaves the world as it was: no key is generated and
  nothing is written.
\<close>

theorem load_key_absent_fails:
  assumes "environ w ''ENCRYPTION_KEY'' = None"
  shows "load_key X w =
           (Inl (ValueError ''ENCRYPTION_KEY environment variable not set''), w)"
  using assms by (simp add: load_key_def)

theorem load_key_absent_fails_witness:
  "environ fresh_world ''ENCRYPTION_KEY'' = None \<and>
   load_key demo_platform fresh_world =
     (Inl (ValueError ''ENCRYPTION_KEY environment variable not set''), fresh_world)"
proof -
  have h: "environ fresh_world ''ENCRYPTION_KEY'' = None"
    by (simp add: fresh_world_def)
  show ?thesis
    using h load_key_absent_fails [OF h, of demo_platform] by simp
qed

subsection \<open>Cipher\<close>

text \<open>
  C4. Round trip: for every collection \<open>C\<close> and every key the cipher accepts, decrypting
  what \<open>encrypt_data\<close> returns for the serialised form of \<open>C\<close> gives that serialised form
  back. The cipher and the codec are library code; what is asked of them is that the
  cipher decrypts this token to this plaintext and that the codec decodes what it encoded.
\<close>

theorem encrypt_decrypt_roundtrip:
  assumes "environ w ''ENCRYPTION_KEY'' = Some k" and "k \<noteq> []"
    and "fernet_valid_key X (str_encode X k)"
    and "fernet_decrypt X (str_encode X k)
           (fernet_encrypt X (str_encode X k) (entropy w) (str_encode X (json_dumps X C)))
         = Some (str_encode X (json_dumps X C))"
    and "bytes_decode X (str_encode X (json_dumps X C)) = Some (json_dumps X C)"
  shows "encrypt_data X (json_dumps X C) w =
           (Inr (fernet_encrypt X (str_encode X k) (entropy w) (str_encode X (json_dumps X C))),
            w\<lparr>entropy := Suc (entropy w)\<rparr>) \<and>
         decrypt_data X
           (fernet_encrypt X (str_encode X k) (entropy w) (str_encode X (json_dumps X C)))
           (w\<lparr>entropy := Suc (entropy w)\<rparr>)
         = (Inr (json_dumps X C), w\<lparr>entropy := Suc (entropy w)\<rparr>)"
  using assms by (simp add: encrypt_data_def decrypt_data_def load_key_def)

theorem encrypt_decrypt_roundtrip_witness:
  "environ keyed_world ''ENCRYPTION_KEY'' = Some ''k1'' \<and> ''k1'' \<noteq> [] \<and>
   fernet_valid_key demo_platform (str_encode demo_platform ''k1'') \<and>
   fernet_decrypt demo_platform (str_encode demo_platform ''k1'')
     (fernet_encrypt demo_platform (str_encode demo_platform ''k1'') (entropy keyed_world)
        (str_encode demo_platform (json_dumps demo_platform [task_A])))
     = Some (str_encode demo_platform (json_dumps demo_platform [task_A])) \<and>
   bytes_decode demo_platform (str_encode demo_platform (json_dumps demo_platform [task_A]))
     = Some (json_dumps demo_platform [task_A]) \<and>
   fst (decrypt_data demo_platform
          (fernet_encrypt demo_platform (str_encode demo_platform ''k1'') (entropy keyed_world)
             (str_encode demo_platform (json_dumps demo_platform [task_A])))
          (keyed_world\<lparr>entropy := Suc (entropy keyed_world)\<rparr>))
     = Inr (json_dumps demo_platform [task_A])"
proof -
  have h1: "environ keyed_world ''ENCRYPTION_KEY'' = Some ''k1''" by code_simp
  have h2: "''k1'' \<noteq> []" by simp
  have h3: "fernet_valid_key demo_platform (str_encode demo_platform ''k1'')" by code_simp
  have h4: "fernet_decrypt demo_platform (str_encode demo_platform ''k1'')
     (fernet_encrypt demo_platform (str_encode demo_platform ''k1'') (entropy keyed_world)
        (str_encode demo_platform (json_dumps demo_platform [task_A])))
     = Some (str_encode demo_platform (json_dumps demo_platform [task_A]))" by code_simp
  have h5: "bytes_decode demo_platform (str_encode demo_platform (json_dumps demo_platform [task_A]))
     = Some (json_dumps demo_platform [task_A])" by code_simp
  from encrypt_decrypt_roundtrip [OF h1 h2 h3 h4 h5]
  have c: "fst (decrypt_data demo_platform
          (fernet_encrypt demo_platform (str_encode demo_platform ''k1'') (entropy keyed_world)
             (str_encode demo_platform (json_dumps demo_platform [task_A])))
          (keyed_world\<lparr>entropy := Suc (entropy keyed_world)\<rparr>))
     = Inr (json_dumps demo_platform [task_A])" by simp
  show ?thesis by (intro conjI h1 h2 h3 h4 h5 c)
qed

subsection \<open>Integrity guard\<close>

text \<open>
  C8. When no digest is stored (the integrity file is absent), \<open>verify_integrity\<close> returns
  \<^verbatim>\<open>True\<close> for every plaintext; it logs a warning and changes nothing else.
\<close>

theorem verify_integrity_without_digest:
  assumes "\<not> path_exists w HASH_FILE"
  shows "verify_integrity X P w =
           (Inr True, logging_warning ''Hash file not found. Integrity check skipped.'' w)"
  using assms by (simp add: verify_integrity_def)

theorem verify_integrity_without_digest_witness:
  "\<not> path_exists keyed_world HASH_FILE \<and>
   verify_integrity demo_platform ''[]'' keyed_world =
     (Inr True, logging_warning ''Hash file not found. Integrity check skipped.'' keyed_world)"
proof -
  have h: "\<not> path_exists keyed_world HASH_FILE"
    by (simp add: path_exists_def keyed_world_def fresh_world_def)
  show ?thesis
    using h verify_integrity_without_digest [OF h, of demo_platform "''[]''"] by simp
qed

text \<open>
  C7. After \<open>save_hash\<close> has stored the digest of a plaintext \<open>P\<close>, \<open>verify_integrity\<close>
  returns \<^verbatim>\<open>True\<close> for \<open>P\<close> and \<^verbatim>\<open>False\<close> for every plaintext \<open>P'\<close> whose digest differs from
  the stored one. The digest file is written and read in text mode, so the digest has to
  survive encoding and decoding, as a string of hexadecimal digits does.
\<close>

theorem verify_after_save_hash:
  assumes "save_hash X (calculate_hash X P) w = (Inr (), w1)"
    and "bytes_decode X (str_encode X (calculate_hash X P)) = Some (calculate_hash X P)"
  shows "fst (verify_integrity X P w1) = Inr True \<and>
         (calculate_hash X P' \<noteq> calculate_hash X P \<longrightarrow>
            fst (verify_integrity X P' w1) = Inr False)"
  using assms
  by (auto simp: save_hash_def verify_integrity_def path_exists_def logging_info_def logging_error_def
      split: if_splits)

theorem verify_after_save_hash_witness:
  "save_hash demo_platform (calculate_hash demo_platform ''[a]'') keyed_world =
     (Inr (), snd (save_hash demo_platform (calculate_hash demo_platform ''[a]'') keyed_world)) \<and>
   bytes_decode demo_platform (str_encode demo_platform (calculate_hash demo_platform ''[a]''))
     = Some (calculate_hash demo_platform ''[a]'') \<and>
   calculate_hash demo_platform ''[b]'' \<noteq> calculate_hash demo_platform ''[a]'' \<and>
   fst (verify_integrity demo_platform ''[a]''
          (snd (save_hash demo_platform (calculate_hash demo_platform ''[a]'') keyed_world)))
     = Inr True \<and>
   fst (verify_integrity demo_platform ''[b]''
          (snd (save_hash demo_platform (calculate_hash demo_platform ''[a]'') keyed_world)))
     = Inr False"
proof -
  have h1: "save_hash demo_platform (calculate_hash demo_platform ''[a]'') keyed_world =
     (Inr (), snd (save_hash demo_platform (calculate_hash demo_platform ''[a]'') keyed_world))"
    by (simp add: save_hash_def keyed_world_def fresh_world_def)
  have h2: "bytes_decode demo_platform (str_encode demo_platform (calculate_hash demo_platform ''[a]''))
     = Some (calculate_hash demo_platform ''[a]'')"
    by code_simp
  have h3: "calculate_hash demo_platform ''[b]'' \<noteq> calculate_hash demo_platform ''[a]''"
    by code_simp
  show ?thesis
    using h1 h2 h3 verify_after_save_hash [OF h1 h2, of "''[b]''"] by simp
qed

subsection \<open>Loading\<close>

text \<open>
  C1. When the store decrypts to a plaintext \<open>P\<close> and the stored digest \<open>D\<close> is not the
  digest of \<open>P\<close>, \<open>load_tasks\<close> does not raise: it returns the empty collection, never the
  decrypted data, and the only change to the world are the two error records in the log.
\<close>

theorem load_tasks_integrity_mismatch:
  assumes "files w FILE = Some ct" and "ct \<noteq> []"
    and "environ w ''ENCRYPTION_KEY'' = Some k" and "k \<noteq> []"
    and "fernet_valid_key X (str_encode X k)"
    and "fernet_decrypt X (str_encode X k) ct = Some pb"
    and "bytes_decode X pb = Some P"
    and "files w HASH_FILE = Some db"
    and "bytes_decode X db = Some D"
    and "D \<noteq> calculate_hash X P"
  shows "load_tasks X w =
           (Inr [],
            logging_error ''Data integrity verification failed. Returning empty task list.''
              (logging_error ''Data integrity check failed! Possible tampering detected.'' w))"
  using assms
  by (simp add: load_tasks_def secure_file_creation_def path_exists_def decrypt_data_def
      load_key_def verify_integrity_def)

theorem load_tasks_integrity_mismatch_witness:
  "files tampered_world FILE =
     Some (fernet_encrypt demo_platform (demo_encode ''k1'') 1 (demo_encode (demo_dumps [task_A]))) \<and>
   fernet_encrypt demo_platform (demo_encode ''k1'') 1 (demo_encode (demo_dumps [task_A])) \<noteq> [] \<and>
   environ tampered_world ''ENCRYPTION_KEY'' = Some ''k1'' \<and> ''k1'' \<noteq> [] \<and>
   fernet_valid_key demo_platform (str_encode demo_platform ''k1'') \<and>
   fernet_decrypt demo_platform (str_encode demo_platform ''k1'')
     (fernet_encrypt demo_platform (demo_encode ''k1'') 1 (demo_encode (demo_dumps [task_A])))
     = Some (demo_encode (demo_dumps [task_A])) \<and>
   bytes_decode demo_platform (demo_encode (demo_dumps [task_A])) = Some (demo_dumps [task_A]) \<and>
   files tampered_world HASH_FILE = Some (demo_encode ''0000'') \<and>
   bytes_decode demo_platform (demo_encode ''0000'') = Some ''0000'' \<and>
   ''0000'' \<noteq> calculate_hash demo_platform (demo_dumps [task_A]) \<and>
   fst (load_tasks demo_platform tampered_world) = Inr []"
proof -
  let ?ct = "fernet_encrypt demo_platform (demo_encode ''k1'') 1 (demo_encode (demo_dumps [task_A]))"
  have h1: "files tampered_world FILE = Some ?ct" by code_simp
  have h2: "?ct \<noteq> []" by code_simp
  have h3: "environ tampered_world ''ENCRYPTION_KEY'' = Some ''k1''" by code_simp
  have h4: "''k1'' \<noteq> []" by simp
  have h5: "fernet_valid_key demo_platform (str_encode demo_platform ''k1'')" by code_simp
  have h6: "fernet_decrypt demo_platform (str_encode demo_platform ''k1'') ?ct
              = Some (demo_encode (demo_dumps [task_A]))" by code_simp
  have h7: "bytes_decode demo_platform (demo_encode (demo_dumps [task_A]))
              = Some (demo_dumps [task_A])" by code_simp
  have h8: "files tampered_world HASH_FILE = Some (demo_encode ''0000'')" by code_simp
  have h9: "bytes_decode demo_platform (demo_encode ''0000'') = Some ''0000''" by code_simp
  have h10: "''0000'' \<noteq> calculate_hash demo_platform (demo_dumps [task_A])" by code_simp
  from load_tasks_integrity_mismatch [OF h1 h2 h3 h4 h5 h6 h7 h8 h9 h10]
  have c: "fst (load_tasks demo_platform tampered_world) = Inr []" by simp
  show ?thesis by (intro conjI h1 h2 h3 h4 h5 h6 h7 h8 h9 h10 c)
qed

subsection \<open>What reaches the store file\<close>

lemma encrypt_data_cases:
  "encrypt_data X s w = (r, w') \<Longrightarrow>
     (\<exists>e. r = Inl e \<and> w' = w) \<or>
     (\<exists>k. environ w ''ENCRYPTION_KEY'' = Some k \<and>
          r = Inr (fernet_encrypt X (str_encode X k) (entropy w) (str_encode X s)) \<and>
          w' = w\<lparr>entropy := Suc (entropy w)\<rparr>)"
  by (auto simp: encrypt_data_def load_key_def split: option.splits if_splits)

lemma secure_file_creation_store:
  "files (snd (secure_file_creation X filepath w)) FILE = files w FILE \<or>
   files (snd (secure_file_creation X filepath w)) FILE = Some [] \<or>
   (\<exists>k. environ w ''ENCRYPTION_KEY'' = Some k \<and>
        files (snd (secure_file_creation X filepath w)) FILE =
          Some (fernet_encrypt X (str_encode X k) (entropy w) (str_encode X (json_dumps X []))))"
proof (cases "path_exists w filepath")
  case True
  then show ?thesis by (simp add: secure_file_creation_def)
next
  case False
  let ?w2 = "w\<lparr>umask := 127, files := (files w)(filepath \<mapsto> [])\<rparr>"
  obtain r w3 where e: "encrypt_data X (json_dumps X []) ?w2 = (r, w3)"
    by (cases "encrypt_data X (json_dumps X []) ?w2")
  from encrypt_data_cases [OF e] False e show ?thesis
    by (auto simp: secure_file_creation_def logging_info_def)
qed

lemma create_backup_cases:
  "create_backup X w = (r, w') \<Longrightarrow>
     files w' FILE = files w FILE \<and> environ w' = environ w \<and> entropy w' = entropy w"
  by (auto simp: create_backup_def os_makedirs_def shutil_copy_into_def Let_def logging_info_def
      split: option.splits if_splits)

lemma save_tasks_store:
  "files (snd (save_tasks X C w)) FILE = files w FILE \<or>
   (\<exists>k. environ w ''ENCRYPTION_KEY'' = Some k \<and>
        files (snd (save_tasks X C w)) FILE =
          Some (fernet_encrypt X (str_encode X k) (entropy w) (str_encode X (json_dumps X C))))"
proof -
  obtain r1 w1 where b: "create_backup X w = (r1, w1)" by (cases "create_backup X w")
  obtain r2 w2 where e: "encrypt_data X (json_dumps X C) w1 = (r2, w2)"
    by (cases "encrypt_data X (json_dumps X C) w1")
  from create_backup_cases [OF b] encrypt_data_cases [OF e] b e show ?thesis
    by (auto simp: save_tasks_def save_hash_def logging_info_def Let_def split: sum.splits)
qed

lemma load_tasks_store:
  "files (snd (load_tasks X w)) FILE = files (snd (secure_file_creation X FILE w)) FILE"
proof -
  have d: "snd (decrypt_data X ct v) = v" for ct v
    by (simp add: decrypt_data_def load_key_def split: option.splits)
  have v: "files (snd (verify_integrity X P v)) = files v" for P v
    by (simp add: verify_integrity_def logging_warning_def logging_info_def logging_error_def
        Let_def split: option.splits)
  obtain r1 w1 where s: "secure_file_creation X FILE w = (r1, w1)"
    by (cases "secure_file_creation X FILE w")
  show ?thesis
  proof (cases r1)
    case (Inl e)
    with s show ?thesis by (simp add: load_tasks_def)
  next
    case (Inr u)
    show ?thesis
    proof (cases "files w1 FILE")
      case None
      with s Inr show ?thesis by (simp add: load_tasks_def)
    next
      case (Some ct)
      obtain r2 w2 where dd: "decrypt_data X ct w1 = (r2, w2)" by (cases "decrypt_data X ct w1")
      with d [of ct w1] have w2: "w2 = w1" by simp
      show ?thesis
      proof (cases r2)
        case (Inl e)
        with s Inr Some dd w2 show ?thesis by (simp add: load_tasks_def)
      next
        case (Inr P)
        obtain r3 w3 where vv: "verify_integrity X P w1 = (r3, w3)"
          by (cases "verify_integrity X P w1")
        with v [of P w1] have "files w3 = files w1" by simp
        with s \<open>r1 = Inr u\<close> Some dd w2 Inr vv show ?thesis
          by (simp add: load_tasks_def logging_error_def split: sum.splits option.splits)
      qed
    qed
  qed
qed

text \<open>
  C9. The store file receives ciphertext only. After \<open>secure_file_creation\<close>, after
  \<open>load_tasks\<close> (which calls it) and after \<open>save_tasks\<close>, the store holds what it held
  before, or the token \<open>fernet_encrypt\<close> returned for the serialised collection (the empty
  one at creation) under the key of the environment; the one other outcome is the file
  that creation leaves empty when the key is unusable, to which no byte was written.
\<close>

theorem store_receives_ciphertext_only:
  "(files (snd (secure_file_creation X filepath w)) FILE = files w FILE \<or>
    files (snd (secure_file_creation X filepath w)) FILE = Some [] \<or>
    (\<exists>k. environ w ''ENCRYPTION_KEY'' = Some k \<and>
         files (snd (secure_file_creation X filepath w)) FILE =
           Some (fernet_encrypt X (str_encode X k) (entropy w) (str_encode X (json_dumps X []))))) \<and>
   (files (snd (load_tasks X w)) FILE = files w FILE \<or>
    files (snd (load_tasks X w)) FILE = Some [] \<or>
    (\<exists>k. environ w ''ENCRYPTION_KEY'' = Some k \<and>
         files (snd (load_tasks X w)) FILE =
           Some (fernet_encrypt X (str_encode X k) (entropy w) (str_encode X (json_dumps X []))))) \<and>
   (files (snd (save_tasks X C w)) FILE = files w FILE \<or>
    (\<exists>k. environ w ''ENCRYPTION_KEY'' = Some k \<and>
         files (snd (save_tasks X C w)) FILE =
           Some (fernet_encrypt X (str_encode X k) (entropy w) (str_encode X (json_dumps X C)))))"
  using secure_file_creation_store [of X filepath w] secure_file_creation_store [of X FILE w]
    save_tasks_store [of X C w]
  by (simp only: load_tasks_store)

theorem store_receives_ciphertext_only_witness:
  "files (snd (secure_file_creation demo_platform FILE keyed_world)) FILE =
     Some (fernet_encrypt demo_platform (str_encode demo_platform ''k1'') (entropy keyed_world)
             (str_encode demo_platform (json_dumps demo_platform []))) \<and>
   files (snd (secure_file_creation demo_platform FILE fresh_world)) FILE = Some [] \<and>
   files (snd (load_tasks demo_platform created_world)) FILE = files created_world FILE \<and>
   files (snd (save_tasks demo_platform [task_A] later_run_world)) FILE =
     Some (fernet_encrypt demo_platform (str_encode demo_platform ''k1'') (entropy later_run_world)
             (str_encode demo_platform (json_dumps demo_platform [task_A])))"
proof -
  have n1: "files (snd (secure_file_creation demo_platform FILE keyed_world)) FILE
              \<noteq> files keyed_world FILE"
    and n2: "files (snd (secure_file_creation demo_platform FILE keyed_world)) FILE \<noteq> Some []"
    and e1: "environ keyed_world ''ENCRYPTION_KEY'' = Some ''k1''"
    and n3: "files (snd (save_tasks demo_platform [task_A] later_run_world)) FILE
               \<noteq> files later_run_world FILE"
    and e2: "environ later_run_world ''ENCRYPTION_KEY'' = Some ''k1''"
    by code_simp+
  have c2: "files (snd (secure_file_creation demo_platform FILE fresh_world)) FILE = Some []"
    and c3: "files (snd (load_tasks demo_platform created_world)) FILE = files created_world FILE"
    by code_simp+
  from store_receives_ciphertext_only [of demo_platform FILE keyed_world "[task_A]"] n1 n2 e1
  have c1: "files (snd (secure_file_creation demo_platform FILE keyed_world)) FILE =
     Some (fernet_encrypt demo_platform (str_encode demo_platform ''k1'') (entropy keyed_world)
             (str_encode demo_platform (json_dumps demo_platform [])))"
    by auto
  from store_receives_ciphertext_only [of demo_platform FILE later_run_world "[task_A]"] n3 e2
  have c4: "files (snd (save_tasks demo_platform [task_A] later_run_world)) FILE =
     Some (fernet_encrypt demo_platform (str_encode demo_platform ''k1'') (entropy later_run_world)
             (str_encode demo_platform (json_dumps demo_platform [task_A])))"
    by auto
  show ?thesis by (intro conjI c1 c2 c3 c4)
qed

subsection \<open>Backups\<close>

text \<open>
  The rolling backup of \<^verbatim>\<open>tracker_Encryption.py\<close> and \<^verbatim>\<open>tracker_Log.py\<close> is guarded by
  \<^verbatim>\<open>os.path.exists(FILE)\<close>: without a store it does nothing.
\<close>

lemma backup_tasks_file_enc_without_store:
  "\<not> path_exists w FILE \<Longrightarrow> backup_tasks_file_enc w = (Inr (), w)"
  by (simp add: backup_tasks_file_enc_def)

lemma backup_tasks_file_log_without_store:
  "\<not> path_exists w FILE \<Longrightarrow> backup_tasks_file_log w = (Inr (), w)"
  by (simp add: backup_tasks_file_log_def)

text \<open>\<^verbatim>\<open>create_backup\<close> of \<^verbatim>\<open>TaskManager.py\<close> has no such guard.\<close>

lemma create_backup_without_store:
  assumes "files w FILE = None" and "FILE \<notin> dirs w"
  shows "fst (create_backup X w) = Inl (FileNotFoundError FILE) \<or>
         fst (create_backup X w) = Inl (FileExistsError BACKUP_FOLDER)"
    and "fst (save_tasks X C w) = Inl (FileNotFoundError FILE) \<or>
         fst (save_tasks X C w) = Inl (FileExistsError BACKUP_FOLDER)"
  using assms
  by (auto simp: save_tasks_def create_backup_def os_makedirs_def shutil_copy_into_def Let_def
      path_exists_def)

text \<open>
  C3. The backup step of a save without a store file should do nothing. In
  \<^verbatim>\<open>TaskManager.py\<close> it creates the backup folder and then raises: in the empty directory
  with the key set, \<open>save_tasks\<close> ends with \<^verbatim>\<open>FileNotFoundError\<close> and the folder
  \<^verbatim>\<open>backups/\<close> exists afterwards.
\<close>

theorem save_tasks_without_store_raises:
  "files keyed_world FILE = None \<and> FILE \<notin> dirs keyed_world \<and>
   fst (save_tasks demo_platform [] keyed_world) = Inl (FileNotFoundError ''tasks.json'') \<and>
   dirs (snd (save_tasks demo_platform [] keyed_world)) = {''backups/''}"
  by (simp add: keyed_world_def fresh_world_def save_tasks_def create_backup_def os_makedirs_def
      shutil_copy_into_def strip_slash_def Let_def path_exists_def FILE_def BACKUP_FOLDER_def)

text \<open>
  The rolling backup: each save of \<^verbatim>\<open>tracker_Encryption.py\<close> first copies the store to
  \<^verbatim>\<open>tasks.json.bak\<close>, and nothing later in the save touches the copy.
\<close>

lemma load_key_enc_frame:
  "load_key_enc X w = (r, w') \<Longrightarrow>
     files w' FILE = files w FILE \<and> files w' (FILE @ ''.bak'') = files w (FILE @ ''.bak'')"
  by (auto simp: load_key_enc_def generate_key_enc_def py_print_def Let_def
      split: if_splits option.splits)






text \<open>
  The timestamped snapshots: with a backup folder that can take them, each save of
  \<^verbatim>\<open>TaskManager.py\<close> reads the clock once and copies the store to the snapshot of that
  name; besides, it writes the store and the digest file only.
\<close>

lemma create_backup_ok:
  assumes "files w FILE = Some b" and "backup_folder_usable w"
  shows "fst (create_backup X w) = Inr ()"
    and "files (snd (create_backup X w)) = (files w)(backup_path (strftime_now X (clock w)) \<mapsto> b)"
    and "environ (snd (create_backup X w)) = environ w"
    and "entropy (snd (create_backup X w)) = entropy w"
    and "clock (snd (create_backup X w)) = Suc (clock w)"
    and "BACKUP_FOLDER \<in> dirs (snd (create_backup X w))"
    and "backup_folder_usable (snd (create_backup X w))"
    and "HASH_FILE \<in> dirs (snd (create_backup X w)) \<longleftrightarrow> HASH_FILE \<in> dirs w"
proof -
  let ?p = "backup_path (strftime_now X (clock w))"
  let ?w1 = "if BACKUP_FOLDER \<in> dirs w then w
             else w\<lparr>dirs := insert BACKUP_FOLDER (dirs w),
                    dir_mode := (dir_mode w)(BACKUP_FOLDER := makedirs_mode (umask w))\<rparr>"
  have eq: "create_backup X w =
              (Inr (), logging_info (''Backup created: '' @ ?p)
                 (?w1\<lparr>clock := Suc (clock w), files := (files w)(?p \<mapsto> b)\<rparr>))"
  proof (cases "BACKUP_FOLDER \<in> dirs w")
    case True
    with assms show ?thesis
      by (auto simp: create_backup_def path_exists_def shutil_copy_into_def Let_def
          backup_folder_usable_def)
  next
    case False
    with assms show ?thesis
      by (auto simp: create_backup_def path_exists_def os_makedirs_def shutil_copy_into_def
          Let_def backup_folder_usable_def)
  qed
  show "fst (create_backup X w) = Inr ()" by (simp add: eq)
  show "files (snd (create_backup X w)) = (files w)(?p \<mapsto> b)"
    by (simp add: eq logging_info_def)
  show "environ (snd (create_backup X w)) = environ w" by (simp add: eq logging_info_def)
  show "entropy (snd (create_backup X w)) = entropy w" by (simp add: eq logging_info_def)
  show "clock (snd (create_backup X w)) = Suc (clock w)" by (simp add: eq logging_info_def)
  show "BACKUP_FOLDER \<in> dirs (snd (create_backup X w))" by (simp add: eq logging_info_def)
  show "backup_folder_usable (snd (create_backup X w))"
    using assms(2) by (simp add: eq logging_info_def backup_folder_usable_def)
  show "HASH_FILE \<in> dirs (snd (create_backup X w)) \<longleftrightarrow> HASH_FILE \<in> dirs w"
    by (simp add: eq logging_info_def)
qed












subsection \<open>Adding a task\<close>

lemma decrypt_data_world: "snd (decrypt_data X ct w) = w"
  by (simp add: decrypt_data_def load_key_def split: option.splits)

lemma verify_integrity_world:
  "files (snd (verify_integrity X P w)) = files w"
  "environ (snd (verify_integrity X P w)) = environ w"
  "dirs (snd (verify_integrity X P w)) = dirs w"
  "entropy (snd (verify_integrity X P w)) = entropy w"
  by (simp_all add: verify_integrity_def logging_warning_def logging_info_def logging_error_def
      Let_def split: option.splits)

lemma load_tasks_returns:
  assumes "load_tasks X w = (Inr tasks, w3)"
  shows "files w3 FILE \<noteq> None"
proof -
  obtain r1 w1 where s: "secure_file_creation X FILE w = (r1, w1)"
    by (cases "secure_file_creation X FILE w")
  show ?thesis
  proof (cases r1)
    case (Inl e)
    with s assms show ?thesis by (simp add: load_tasks_def)
  next
    case (Inr u)
    show ?thesis
    proof (cases "files w1 FILE")
      case None
      with s Inr assms show ?thesis by (simp add: load_tasks_def)
    next
      case (Some ct)
      obtain r2 w2 where dd: "decrypt_data X ct w1 = (r2, w2)" by (cases "decrypt_data X ct w1")
      with decrypt_data_world [of X ct w1] have w2: "w2 = w1" by simp
      show ?thesis
      proof (cases r2)
        case (Inl e)
        with s \<open>r1 = Inr u\<close> Some dd w2 assms show ?thesis
          by (simp add: load_tasks_def split: if_splits)
      next
        case (Inr P)
        obtain r3 w3' where vv: "verify_integrity X P w1 = (r3, w3')"
          by (cases "verify_integrity X P w1")
        with verify_integrity_world(1) [of X P w1] have "files w3' = files w1" by simp
        with s \<open>r1 = Inr u\<close> Some dd w2 Inr vv assms show ?thesis
          by (auto simp: load_tasks_def logging_error_def split: sum.splits option.splits if_splits)
      qed
    qed
  qed
qed

lemma save_tasks_ok:
  assumes "files w FILE \<noteq> None" and "environ w ''ENCRYPTION_KEY'' = Some k" and "k \<noteq> []"
    and "fernet_valid_key X (str_encode X k)" and "HASH_FILE \<notin> dirs w"
    and "backup_folder_usable w"
  shows "fst (save_tasks X C w) = Inr ()"
    and "files (snd (save_tasks X C w)) FILE =
           Some (fernet_encrypt X (str_encode X k) (entropy w) (str_encode X (json_dumps X C)))"
    and "files (snd (save_tasks X C w)) HASH_FILE =
           Some (str_encode X (calculate_hash X (json_dumps X C)))"
    and "environ (snd (save_tasks X C w)) = environ w"
    and "HASH_FILE \<notin> dirs (snd (save_tasks X C w))"
    and "entropy (snd (save_tasks X C w)) = Suc (entropy w)"
    and "backup_folder_usable (snd (save_tasks X C w))"
proof -
  from assms(1) obtain b where b: "files w FILE = Some b" by auto
  note ok = create_backup_ok [OF b assms(6), of X]
  define w1 where "w1 = snd (create_backup X w)"
  have cb: "create_backup X w = (Inr (), w1)"
    using ok(1) by (simp add: w1_def prod_eq_iff)
  have w1: "environ w1 = environ w" "entropy w1 = entropy w" "HASH_FILE \<notin> dirs w1"
    "backup_folder_usable w1" "BACKUP_FOLDER \<in> dirs w1"
    using ok assms(5) by (simp_all add: w1_def)
  let ?ct = "fernet_encrypt X (str_encode X k) (entropy w) (str_encode X (json_dumps X C))"
  have e: "encrypt_data X (json_dumps X C) w1 = (Inr ?ct, w1\<lparr>entropy := Suc (entropy w)\<rparr>)"
    using assms(2-4) w1 by (simp add: encrypt_data_def load_key_def)
  have st: "save_tasks X C w =
          (Inr (), logging_info ''Tasks successfully saved, encrypted, and integrity hash updated.''
            (w1\<lparr>entropy := Suc (entropy w),
                 files := (files w1)
                    (FILE \<mapsto> ?ct,
                     HASH_FILE \<mapsto> str_encode X (calculate_hash X (json_dumps X C)))\<rparr>))"
    using w1(3) by (simp add: save_tasks_def cb e save_hash_def Let_def)
  show "fst (save_tasks X C w) = Inr ()" by (simp add: st)
  show "files (snd (save_tasks X C w)) FILE = Some ?ct"
    by (simp add: st logging_info_def)
  show "files (snd (save_tasks X C w)) HASH_FILE =
           Some (str_encode X (calculate_hash X (json_dumps X C)))"
    by (simp add: st logging_info_def)
  show "environ (snd (save_tasks X C w)) = environ w" by (simp add: st logging_info_def w1)
  show "HASH_FILE \<notin> dirs (snd (save_tasks X C w))" by (simp add: st logging_info_def w1)
  show "entropy (snd (save_tasks X C w)) = Suc (entropy w)" by (simp add: st logging_info_def)
  show "backup_folder_usable (snd (save_tasks X C w))"
    using w1(4,5) by (simp add: st backup_folder_usable_def logging_info_def)
qed

lemma add_task_rejects_empty_title:
  assumes "py_input ''Enter task title: '' w = (Inr l1, w1)" and "strip l1 = []"
  shows "files (snd (add_task X w)) = files w"
  using assms
  by (auto simp: add_task_def py_input_def py_print_def logging_error_def Let_def split: list.splits)

lemma add_task_rejects_empty_description:
  assumes "py_input ''Enter task title: '' w = (Inr l1, w1)" and "strip l1 \<noteq> []"
    and "py_input ''Enter task description: '' w1 = (Inr l2, w2)" and "strip l2 = []"
  shows "files (snd (add_task X w)) = files w"
  using assms
  by (auto simp: add_task_def py_input_def py_print_def logging_error_def Let_def split: list.splits)

lemma add_task_appends:
  assumes "py_input ''Enter task title: '' w = (Inr l1, w1)" and "strip l1 \<noteq> []"
    and "py_input ''Enter task description: '' w1 = (Inr l2, w2)" and "strip l2 \<noteq> []"
    and "load_tasks X w2 = (Inr tasks, w3)"
    and "environ w3 ''ENCRYPTION_KEY'' = Some k" and "k \<noteq> []"
    and "fernet_valid_key X (str_encode X k)" and "HASH_FILE \<notin> dirs w3"
    and "backup_folder_usable w3"
  shows "fst (add_task X w) = Inr () \<and>
         files (snd (add_task X w)) FILE =
           Some (fernet_encrypt X (str_encode X k) (entropy w3)
                   (str_encode X (json_dumps X
                      (tasks @ [\<lparr>task_id = int (length tasks) + 1, title = strip l1,
                                 description = strip l2, status = ''not done''\<rparr>])))) \<and>
         files (snd (add_task X w)) HASH_FILE =
           Some (str_encode X (calculate_hash X (json_dumps X
                   (tasks @ [\<lparr>task_id = int (length tasks) + 1, title = strip l1,
                              description = strip l2, status = ''not done''\<rparr>]))))"
proof -
  let ?C = "tasks @ [\<lparr>task_id = int (length tasks) + 1, title = strip l1,
                      description = strip l2, status = ''not done''\<rparr>]"
  note ok = save_tasks_ok [OF load_tasks_returns [OF assms(5)] assms(6-10), where C = ?C]
  obtain r4 w4 where s: "save_tasks X ?C w3 = (r4, w4)" by (cases "save_tasks X ?C w3")
  with ok(1) have r4: "r4 = Inr ()" by simp
  have "add_task X w = (Inr (), py_print (''Task '' @ quoted (strip l1) @ '' added.'')
           (logging_info (''Task '' @ quoted (strip l1) @ '' added with ID ''
               @ str_int (int (length tasks) + 1)) w4))"
    using assms(1-5) s r4 by (simp add: add_task_def Let_def)
  moreover have "w4 = snd (save_tasks X ?C w3)" using s by simp
  ultimately show ?thesis using ok(2,3) by (simp add: py_print_def logging_info_def)
qed

lemma decrypt_data_enc_frame:
  assumes "decrypt_data_enc X ct w = (r, w')"
  shows "files w' FILE = files w FILE"
proof -
  obtain r1 w1 where k: "load_key_enc X w = (r1, w1)" by (cases "load_key_enc X w")
  from load_key_enc_frame [OF k] assms k show ?thesis
    by (auto simp: decrypt_data_enc_def split: sum.splits if_splits option.splits)
qed

lemma load_tasks_enc_returns:
  assumes "load_tasks_enc X w = (Inr tasks, w3)"
  shows "files w3 FILE \<noteq> None"
proof -
  obtain r1 w1 where s: "secure_file_creation_enc X FILE w = (r1, w1)"
    by (cases "secure_file_creation_enc X FILE w")
  show ?thesis
  proof (cases r1)
    case (Inl e)
    with s assms show ?thesis by (simp add: load_tasks_enc_def)
  next
    case (Inr u)
    show ?thesis
    proof (cases "files w1 FILE")
      case None
      with s Inr assms show ?thesis by (simp add: load_tasks_enc_def)
    next
      case (Some ct)
      obtain r2 w2 where dd: "decrypt_data_enc X ct w1 = (r2, w2)"
        by (cases "decrypt_data_enc X ct w1")
      from decrypt_data_enc_frame [OF dd] Some have f2: "files w2 FILE = Some ct" by simp
      from s Inr Some dd f2 assms show ?thesis
        by (cases r2) (auto simp: load_tasks_enc_def split: if_splits option.splits)
    qed
  qed
qed

lemma save_tasks_enc_ok:
  assumes "files w FILE \<noteq> None" and "files w KEY_FILE = Some key"
    and "fernet_valid_key X key"
  shows "fst (save_tasks_enc X C w) = Inr ()"
    and "files (snd (save_tasks_enc X C w)) FILE =
           Some (fernet_encrypt X key (entropy w) (str_encode X (json_dumps X C)))"
    and "files (snd (save_tasks_enc X C w)) KEY_FILE = Some key"
    and "entropy (snd (save_tasks_enc X C w)) = Suc (entropy w)"
proof -
  from assms(1) obtain b where b: "files w FILE = Some b" by auto
  let ?w1 = "py_print (''Encrypted backup created: '' @ FILE @ ''.bak'')
               (w\<lparr>files := (files w)(FILE @ ''.bak'' \<mapsto> b)\<rparr>)"
  have bk: "backup_tasks_file_enc w = (Inr (), ?w1)"
    using b by (simp add: backup_tasks_file_enc_def path_exists_def shutil_copy_def Let_def)
  let ?w2 = "?w1\<lparr>files := (files ?w1)(FILE \<mapsto> [])\<rparr>"
  let ?w3 = "py_print (''Encryption key loaded from '' @ KEY_FILE) ?w2"
  let ?ct = "fernet_encrypt X key (entropy w) (str_encode X (json_dumps X C))"
  have k: "load_key_enc X ?w2 = (Inr key, ?w3)"
    using assms(2) by (simp add: load_key_enc_def path_exists_def py_print_def)
  have e: "encrypt_data_enc X (json_dumps X C) ?w2 = (Inr ?ct, ?w3\<lparr>entropy := Suc (entropy w)\<rparr>)"
    unfolding encrypt_data_enc_def k using assms(3) by (simp add: py_print_def)
  have st: "save_tasks_enc X C w =
              (Inr (), ?w3\<lparr>entropy := Suc (entropy w), files := (files ?w3)(FILE \<mapsto> ?ct)\<rparr>)"
    unfolding save_tasks_enc_def bk
    by (simp only: Let_def prod.case sum.case e; simp add: py_print_def)
  show "fst (save_tasks_enc X C w) = Inr ()" by (simp add: st)
  show "files (snd (save_tasks_enc X C w)) FILE = Some ?ct" by (simp add: st)
  show "files (snd (save_tasks_enc X C w)) KEY_FILE = Some key"
    using assms(2) by (simp add: st py_print_def)
  show "entropy (snd (save_tasks_enc X C w)) = Suc (entropy w)" by (simp add: st)
qed

lemma add_task_enc_rejects_empty_title:
  assumes "py_input ''Enter task title: '' w = (Inr l1, w1)" and "strip l1 = []"
  shows "files (snd (add_task_enc X w)) = files w"
  using assms
  by (auto simp: add_task_enc_def py_input_def py_print_def Let_def split: list.splits)

lemma add_task_enc_rejects_empty_description:
  assumes "py_input ''Enter task title: '' w = (Inr l1, w1)" and "strip l1 \<noteq> []"
    and "py_input ''Enter task description: '' w1 = (Inr l2, w2)" and "strip l2 = []"
  shows "files (snd (add_task_enc X w)) = files w"
  using assms
  by (auto simp: add_task_enc_def py_input_def py_print_def Let_def split: list.splits)

lemma add_task_enc_appends:
  assumes "py_input ''Enter task title: '' w = (Inr l1, w1)" and "strip l1 \<noteq> []"
    and "py_input ''Enter task description: '' w1 = (Inr l2, w2)" and "strip l2 \<noteq> []"
    and "load_tasks_enc X w2 = (Inr tasks, w3)"
    and "files w3 KEY_FILE = Some key" and "fernet_valid_key X key"
  shows "fst (add_task_enc X w) = Inr () \<and>
         files (snd (add_task_enc X w)) FILE =
           Some (fernet_encrypt X key (entropy w3)
                   (str_encode X (json_dumps X
                      (tasks @ [\<lparr>task_id = int (length tasks) + 1, title = strip l1,
                                 description = strip l2, status = ''not done''\<rparr>]))))"
proof -
  let ?C = "tasks @ [\<lparr>task_id = int (length tasks) + 1, title = strip l1,
                      description = strip l2, status = ''not done''\<rparr>]"
  note ok = save_tasks_enc_ok [OF load_tasks_enc_returns [OF assms(5)] assms(6,7), of ?C]
  obtain r4 w4 where s: "save_tasks_enc X ?C w3 = (r4, w4)" by (cases "save_tasks_enc X ?C w3")
  with ok(1) have r4: "r4 = Inr ()" by simp
  have "add_task_enc X w = (Inr (), py_print (''Task '' @ quoted (strip l1) @ '' added.'') w4)"
    using assms(1-5) s r4 by (simp add: add_task_enc_def Let_def)
  moreover have "w4 = snd (save_tasks_enc X ?C w3)" using s by simp
  ultimately show ?thesis using ok(2) by (simp add: py_print_def)
qed

text \<open>
  C5. A task with a non-empty title and description should be appended with the next id
  and persisted. \<^verbatim>\<open>tracker_Encryption.py\<close> does so. In \<^verbatim>\<open>TaskManager.py\<close> the first add of
  a first run by an ordinary user does not: the load creates the store and leaves the
  umask \<^verbatim>\<open>0o177\<close>, the save then makes the backup folder with the bits \<^verbatim>\<open>0o600\<close> and the
  copy into it raises \<^verbatim>\<open>PermissionError\<close>, so that the store still holds the empty
  collection afterwards.
\<close>

theorem add_task_first_run_raises:
  "strip ''A'' \<noteq> [] \<and> strip ''d'' \<noteq> [] \<and>
   fst (load_tasks demo_platform first_run_world) = Inr [] \<and>
   fst (add_task demo_platform first_run_world) = Inl (PermissionError ''backups/tasks_0.json'') \<and>
   umask (snd (add_task demo_platform first_run_world)) = 127 \<and>
   dir_mode (snd (add_task demo_platform first_run_world)) BACKUP_FOLDER = 384 \<and>
   fst (load_tasks demo_platform (snd (add_task demo_platform first_run_world))) = Inr [] \<and>
   fst (add_task_enc demo_platform first_run_world) = Inr () \<and>
   fst (load_tasks_enc demo_platform (snd (add_task_enc demo_platform first_run_world)))
     = Inr [task_A]"
  by code_simp

subsection \<open>Changing a status\<close>

lemma update_task_status_for_no_match:
  "\<not> list_ex (\<lambda>t. task_id t = tid) rest \<Longrightarrow>
     update_task_status_for X tid ns visited rest w = (Inr (), w)"
  by (induction rest arbitrary: visited) simp_all

lemma map_status_no_match:
  "\<not> list_ex (\<lambda>t. task_id t = tid) rest \<Longrightarrow>
     map (\<lambda>t. if task_id t = tid then t\<lparr>status := ns\<rparr> else t) rest = rest"
  by (induction rest) simp_all

lemma update_task_status_for_match:
  assumes "list_ex (\<lambda>t. task_id t = tid) rest"
    and "files w FILE \<noteq> None" and "environ w ''ENCRYPTION_KEY'' = Some k" and "k \<noteq> []"
    and "fernet_valid_key X (str_encode X k)" and "HASH_FILE \<notin> dirs w"
    and "backup_folder_usable w"
  shows "fst (update_task_status_for X tid ns visited rest w) = Inr () \<and>
         files (snd (update_task_status_for X tid ns visited rest w)) FILE =
           Some (fernet_encrypt X (str_encode X k)
                   (entropy w + length (filter (\<lambda>t. task_id t = tid) rest) - 1)
                   (str_encode X (json_dumps X
                      (visited @ map (\<lambda>t. if task_id t = tid then t\<lparr>status := ns\<rparr> else t) rest)))) \<and>
         files (snd (update_task_status_for X tid ns visited rest w)) HASH_FILE =
           Some (str_encode X (calculate_hash X (json_dumps X
                   (visited @ map (\<lambda>t. if task_id t = tid then t\<lparr>status := ns\<rparr> else t) rest))))"
  using assms
proof (induction rest arbitrary: visited w)
  case Nil
  then show ?case by simp
next
  case (Cons t rest)
  let ?upd = "\<lambda>t. if task_id t = tid then t\<lparr>status := ns\<rparr> else t"
  show ?case
  proof (cases "task_id t = tid")
    case False
    with Cons.prems(1) have m: "list_ex (\<lambda>t. task_id t = tid) rest" by simp
    from Cons.IH [OF m Cons.prems(2-7), where visited = "visited @ [t]"] False
    show ?thesis by simp
  next
    case True
    let ?t' = "t\<lparr>status := ns\<rparr>"
    let ?C = "visited @ ?t' # rest"
    note ok = save_tasks_ok [OF Cons.prems(2-7), where C = ?C]
    obtain r1 w1 where s: "save_tasks X ?C w = (r1, w1)" by (cases "save_tasks X ?C w")
    with ok have r1: "r1 = Inr ()"
      and f1: "files w1 FILE =
                 Some (fernet_encrypt X (str_encode X k) (entropy w) (str_encode X (json_dumps X ?C)))"
      and h1: "files w1 HASH_FILE = Some (str_encode X (calculate_hash X (json_dumps X ?C)))"
      and e1: "environ w1 = environ w" and d1: "HASH_FILE \<notin> dirs w1"
      and n1: "entropy w1 = Suc (entropy w)" and u1: "backup_folder_usable w1"
      by simp_all
    let ?w1' = "py_print (''Task ID '' @ str_int tid @ '' status updated to '' @ quoted ns @ ''.'')
                  (logging_info (''Task ID '' @ str_int tid @ '' status updated to '' @ quoted ns) w1)"
    have step: "update_task_status_for X tid ns visited (t # rest) w =
                  update_task_status_for X tid ns (visited @ [?t']) rest ?w1'"
      using True s r1 by (simp add: Let_def)
    have p: "files ?w1' = files w1" "environ ?w1' = environ w" "dirs ?w1' = dirs w1"
      "entropy ?w1' = Suc (entropy w)"
      using e1 n1 by (simp_all add: py_print_def logging_info_def)
    show ?thesis
    proof (cases "list_ex (\<lambda>t. task_id t = tid) rest")
      case False
      from update_task_status_for_no_match [OF False] map_status_no_match [OF False]
      have "update_task_status_for X tid ns (visited @ [?t']) rest ?w1' = (Inr (), ?w1')"
        and "map ?upd rest = rest" by simp_all
      moreover from False have "filter (\<lambda>t. task_id t = tid) rest = []"
        by (induction rest) (simp_all split: if_splits)
      ultimately show ?thesis using step True p f1 h1 by simp
    next
      case m: True
      have pre: "files ?w1' FILE \<noteq> None" "environ ?w1' ''ENCRYPTION_KEY'' = Some k"
        "HASH_FILE \<notin> dirs ?w1'" "backup_folder_usable ?w1'"
        using p f1 d1 u1 Cons.prems(3) by simp_all
      from Cons.IH [OF m pre(1,2) Cons.prems(4,5) pre(3,4), where visited = "visited @ [?t']"]
        step True p(4)
      show ?thesis by simp
    qed
  qed
qed

lemma update_task_status_for_enc_no_match:
  "\<not> list_ex (\<lambda>t. task_id t = tid) rest \<Longrightarrow>
     update_task_status_for_enc X tid ns visited rest w = (Inr (), w)"
  by (induction rest arbitrary: visited) simp_all

lemma update_task_status_for_enc_match:
  assumes "list_ex (\<lambda>t. task_id t = tid) rest"
    and "files w FILE \<noteq> None" and "files w KEY_FILE = Some key" and "fernet_valid_key X key"
  shows "fst (update_task_status_for_enc X tid ns visited rest w) = Inr () \<and>
         files (snd (update_task_status_for_enc X tid ns visited rest w)) FILE =
           Some (fernet_encrypt X key
                   (entropy w + length (filter (\<lambda>t. task_id t = tid) rest) - 1)
                   (str_encode X (json_dumps X
                      (visited @ map (\<lambda>t. if task_id t = tid then t\<lparr>status := ns\<rparr> else t) rest))))"
  using assms
proof (induction rest arbitrary: visited w)
  case Nil
  then show ?case by simp
next
  case (Cons t rest)
  let ?upd = "\<lambda>t. if task_id t = tid then t\<lparr>status := ns\<rparr> else t"
  show ?case
  proof (cases "task_id t = tid")
    case False
    with Cons.prems(1) have m: "list_ex (\<lambda>t. task_id t = tid) rest" by simp
    from Cons.IH [OF m Cons.prems(2-4), of "visited @ [t]"] False show ?thesis by simp
  next
    case True
    let ?t' = "t\<lparr>status := ns\<rparr>"
    let ?C = "visited @ ?t' # rest"
    note ok = save_tasks_enc_ok [OF Cons.prems(2-4), of ?C]
    obtain r1 w1 where s: "save_tasks_enc X ?C w = (r1, w1)" by (cases "save_tasks_enc X ?C w")
    with ok have r1: "r1 = Inr ()"
      and f1: "files w1 FILE =
                 Some (fernet_encrypt X key (entropy w) (str_encode X (json_dumps X ?C)))"
      and k1: "files w1 KEY_FILE = Some key"
      and n1: "entropy w1 = Suc (entropy w)"
      by simp_all
    let ?w1' = "py_print (''Task ID '' @ str_int tid @ '' status updated to '' @ quoted ns @ ''.'') w1"
    have step: "update_task_status_for_enc X tid ns visited (t # rest) w =
                  update_task_status_for_enc X tid ns (visited @ [?t']) rest ?w1'"
      using True s r1 by (simp add: Let_def)
    have p: "files ?w1' = files w1" "entropy ?w1' = Suc (entropy w)"
      using n1 by (simp_all add: py_print_def)
    show ?thesis
    proof (cases "list_ex (\<lambda>t. task_id t = tid) rest")
      case False
      from update_task_status_for_enc_no_match [OF False] map_status_no_match [OF False]
      have "update_task_status_for_enc X tid ns (visited @ [?t']) rest ?w1' = (Inr (), ?w1')"
        and "map ?upd rest = rest" by simp_all
      moreover from False have "filter (\<lambda>t. task_id t = tid) rest = []"
        by (induction rest) (simp_all split: if_splits)
      ultimately show ?thesis using step True p f1 by simp
    next
      case m: True
      have pre: "files ?w1' FILE \<noteq> None" "files ?w1' KEY_FILE = Some key"
        using p f1 k1 by simp_all
      from Cons.IH [OF m pre Cons.prems(4), of "visited @ [?t']"] step True p(2)
      show ?thesis by simp
    qed
  qed
qed

lemma update_task_status_for_store:
  "files (snd (update_task_status_for X tid ns visited rest w)) FILE = files w FILE \<or>
   (\<exists>k n j. j \<le> length rest \<and>
      files (snd (update_task_status_for X tid ns visited rest w)) FILE =
        Some (fernet_encrypt X (str_encode X k) n (str_encode X (json_dumps X
          (visited @ map (\<lambda>t. if task_id t = tid then t\<lparr>status := ns\<rparr> else t) (take j rest)
             @ drop j rest)))))"
proof (induction rest arbitrary: visited w)
  case Nil
  show ?case by simp
next
  case (Cons t rest)
  let ?u = "\<lambda>t. if task_id t = tid then t\<lparr>status := ns\<rparr> else t"
  let ?tok = "\<lambda>k n C. Some (fernet_encrypt X (str_encode X k) n (str_encode X (json_dumps X C)))"
  let ?P = "\<lambda>F rest visited. \<exists>k n j. j \<le> length rest \<and>
      F = ?tok k n (visited @ map ?u (take j rest) @ drop j rest)"
  have shift: "?P F (t # rest) visited" if "?P F rest (visited @ [?u t])" for F
  proof -
    from that obtain k n j where j: "j \<le> length rest"
      and F: "F = ?tok k n ((visited @ [?u t]) @ map ?u (take j rest) @ drop j rest)"
      by (elim exE conjE)
    have "Suc j \<le> length (t # rest)" using j by simp
    moreover have "F = ?tok k n (visited @ map ?u (take (Suc j) (t # rest)) @ drop (Suc j) (t # rest))"
      using F by simp
    ultimately show ?thesis by (intro exI conjI)
  qed
  show ?case
  proof (cases "task_id t = tid")
    case False
    then have eq: "update_task_status_for X tid ns visited (t # rest) w
      = update_task_status_for X tid ns (visited @ [?u t]) rest w"
      by simp
    let ?F = "files (snd (update_task_status_for X tid ns (visited @ [?u t]) rest w)) FILE"
    from Cons.IH [of "visited @ [?u t]" w]
    have "?F = files w FILE \<or> ?P ?F (t # rest) visited"
    proof (elim disjE)
      assume "?F = files w FILE"
      then show ?thesis by (rule disjI1)
    next
      assume "?P ?F rest (visited @ [?u t])"
      then show ?thesis by (intro disjI2 shift)
    qed
    then show ?thesis by (simp only: eq)
  next
    case True
    let ?t' = "t\<lparr>status := ns\<rparr>"
    from True have ut: "?u t = ?t'" by simp
    obtain r w1 where s: "save_tasks X (visited @ ?t' # rest) w = (r, w1)"
      by (cases "save_tasks X (visited @ ?t' # rest) w")
    have st: "files w1 FILE = files w FILE \<or> ?P (files w1 FILE) (t # rest) visited"
    proof -
      from save_tasks_store [of X "visited @ ?t' # rest" w] s
      have "files w1 FILE = files w FILE \<or>
        (\<exists>k. files w1 FILE = ?tok k (entropy w) (visited @ ?t' # rest))"
        by auto
      then show ?thesis
      proof (elim disjE exE)
        assume "files w1 FILE = files w FILE"
        then show ?thesis by (rule disjI1)
      next
        fix k
        assume a: "files w1 FILE = ?tok k (entropy w) (visited @ ?t' # rest)"
        have "Suc 0 \<le> length (t # rest)" by simp
        moreover have "files w1 FILE
          = ?tok k (entropy w) (visited @ map ?u (take (Suc 0) (t # rest)) @ drop (Suc 0) (t # rest))"
          using a True by simp
        ultimately have "?P (files w1 FILE) (t # rest) visited" by (intro exI conjI)
        then show ?thesis by (rule disjI2)
      qed
    qed
    show ?thesis
    proof (cases r)
      case (Inl e)
      with s True have eq: "update_task_status_for X tid ns visited (t # rest) w = (Inl e, w1)"
        by simp
      from st show ?thesis by (simp only: eq snd_conv)
    next
      case (Inr u)
      let ?w1' = "py_print (''Task ID '' @ str_int tid @ '' status updated to '' @ quoted ns @ ''.'')
                    (logging_info (''Task ID '' @ str_int tid @ '' status updated to ''
                                     @ quoted ns) w1)"
      have f: "files ?w1' = files w1" by (simp add: py_print_def logging_info_def)
      from s True Inr have eq: "update_task_status_for X tid ns visited (t # rest) w
        = update_task_status_for X tid ns (visited @ [?u t]) rest ?w1'"
        by simp
      let ?F = "files (snd (update_task_status_for X tid ns (visited @ [?u t]) rest ?w1')) FILE"
      from Cons.IH [of "visited @ [?u t]" ?w1']
      have "?F = files w1 FILE \<or> ?P ?F rest (visited @ [?u t])"
        by (simp only: f)
      then have "?F = files w FILE \<or> ?P ?F (t # rest) visited"
      proof (elim disjE)
        assume a: "?F = files w1 FILE"
        from st show ?thesis by (simp only: a)
      next
        assume "?P ?F rest (visited @ [?u t])"
        then show ?thesis by (intro disjI2 shift)
      qed
      then show ?thesis by (simp only: eq)
    qed
  qed
qed

text \<open>
  C10. In both variants, for the id \<open>tid\<close> that \<open>get_valid_task_id\<close> returns, the status
  \<open>ns\<close> chosen and a loaded collection \<open>tasks\<close> that contains a task with that id,
  \<open>update_task_status\<close> returns normally (given a usable key and, in \<^verbatim>\<open>TaskManager.py\<close>, a
  backup folder that can take the snapshot) and what the store then
  holds is the encryption of the serialisation of \<open>tasks\<close> in which the tasks with id \<open>tid\<close>
  have status \<open>ns\<close>. Length and order, every id, title and description, and the status
  of every task with another id are those of \<open>tasks\<close>.

  In \<^verbatim>\<open>TaskManager.py\<close>, whatever the key and the backup folder are and whether the command
  returns or raises, the store afterwards holds what it held after the load, or the
  encryption of the serialisation of \<open>tasks\<close> in which the tasks with id \<open>tid\<close> among the
  first \<open>i\<close> have status \<open>ns\<close>; for every such prefix, length and order, every id, title and
  description, and every other status are again those of \<open>tasks\<close>.
\<close>

theorem update_task_status_changes_status_only:
  "(get_valid_task_id X w = (Inr tid, w1) \<and>
    status_choice_loop
      (py_print (''Is the task (ID '' @ str_int tid @ '') 1. In progress 2. Done'') w1)
      = (Inr ns, w3) \<and>
    load_tasks X w3 = (Inr tasks, w4) \<and> list_ex (\<lambda>t. task_id t = tid) tasks \<and>
    environ w4 ''ENCRYPTION_KEY'' = Some k \<and> k \<noteq> [] \<and> fernet_valid_key X (str_encode X k) \<and>
    HASH_FILE \<notin> dirs w4 \<and> backup_folder_usable w4 \<longrightarrow>
      fst (update_task_status X w) = Inr () \<and>
      files (snd (update_task_status X w)) FILE =
        Some (fernet_encrypt X (str_encode X k)
                (entropy w4 + length (filter (\<lambda>t. task_id t = tid) tasks) - 1)
                (str_encode X (json_dumps X
                   (map (\<lambda>t. if task_id t = tid then t\<lparr>status := ns\<rparr> else t) tasks)))) \<and>
      files (snd (update_task_status X w)) HASH_FILE =
        Some (str_encode X (calculate_hash X (json_dumps X
                (map (\<lambda>t. if task_id t = tid then t\<lparr>status := ns\<rparr> else t) tasks))))) \<and>
   (get_valid_task_id_enc X v = (Inr tid', v1) \<and>
    status_choice_loop_enc
      (py_print (''Is the task (ID '' @ str_int tid' @ '') 1. In progress 2. Done'') v1)
      = (Inr ns', v3) \<and>
    load_tasks_enc X v3 = (Inr tasks', v4) \<and> list_ex (\<lambda>t. task_id t = tid') tasks' \<and>
    files v4 KEY_FILE = Some key \<and> fernet_valid_key X key \<longrightarrow>
      fst (update_task_status_enc X v) = Inr () \<and>
      files (snd (update_task_status_enc X v)) FILE =
        Some (fernet_encrypt X key
                (entropy v4 + length (filter (\<lambda>t. task_id t = tid') tasks') - 1)
                (str_encode X (json_dumps X
                   (map (\<lambda>t. if task_id t = tid' then t\<lparr>status := ns'\<rparr> else t) tasks'))))) \<and>
   length (map (\<lambda>t. if task_id t = tid then t\<lparr>status := ns\<rparr> else t) tasks) = length tasks \<and>
   map task_id (map (\<lambda>t. if task_id t = tid then t\<lparr>status := ns\<rparr> else t) tasks)
     = map task_id tasks \<and>
   map title (map (\<lambda>t. if task_id t = tid then t\<lparr>status := ns\<rparr> else t) tasks)
     = map title tasks \<and>
   map description (map (\<lambda>t. if task_id t = tid then t\<lparr>status := ns\<rparr> else t) tasks)
     = map description tasks \<and>
   map status (map (\<lambda>t. if task_id t = tid then t\<lparr>status := ns\<rparr> else t) tasks)
     = map (\<lambda>t. if task_id t = tid then ns else status t) tasks \<and>
   (get_valid_task_id X w = (Inr tid, w1) \<and>
    status_choice_loop
      (py_print (''Is the task (ID '' @ str_int tid @ '') 1. In progress 2. Done'') w1)
      = (Inr ns, w3) \<and>
    load_tasks X w3 = (Inr tasks, w4) \<longrightarrow>
      files (snd (update_task_status X w)) FILE = files w4 FILE \<or>
      (\<exists>k' n i. i \<le> length tasks \<and>
         files (snd (update_task_status X w)) FILE =
           Some (fernet_encrypt X (str_encode X k') n (str_encode X (json_dumps X
             (map (\<lambda>t. if task_id t = tid then t\<lparr>status := ns\<rparr> else t) (take i tasks)
                @ drop i tasks)))))) \<and>
   length (map (\<lambda>t. if task_id t = tid then t\<lparr>status := ns\<rparr> else t) (take j tasks) @ drop j tasks) = length tasks \<and>
   map task_id (map (\<lambda>t. if task_id t = tid then t\<lparr>status := ns\<rparr> else t) (take j tasks) @ drop j tasks)
     = map task_id tasks \<and>
   map title (map (\<lambda>t. if task_id t = tid then t\<lparr>status := ns\<rparr> else t) (take j tasks) @ drop j tasks)
     = map title tasks \<and>
   map description (map (\<lambda>t. if task_id t = tid then t\<lparr>status := ns\<rparr> else t) (take j tasks) @ drop j tasks)
     = map description tasks \<and>
   map status (map (\<lambda>t. if task_id t = tid then t\<lparr>status := ns\<rparr> else t) (take j tasks) @ drop j tasks)
     = map (\<lambda>t. if task_id t = tid then ns else status t) (take j tasks) @ map status (drop j tasks)"
proof -
  have tm: "fst (update_task_status X w) = Inr () \<and>
      files (snd (update_task_status X w)) FILE =
        Some (fernet_encrypt X (str_encode X k)
                (entropy w4 + length (filter (\<lambda>t. task_id t = tid) tasks) - 1)
                (str_encode X (json_dumps X
                   (map (\<lambda>t. if task_id t = tid then t\<lparr>status := ns\<rparr> else t) tasks)))) \<and>
      files (snd (update_task_status X w)) HASH_FILE =
        Some (str_encode X (calculate_hash X (json_dumps X
                (map (\<lambda>t. if task_id t = tid then t\<lparr>status := ns\<rparr> else t) tasks))))"
    if a: "get_valid_task_id X w = (Inr tid, w1)"
      "status_choice_loop
         (py_print (''Is the task (ID '' @ str_int tid @ '') 1. In progress 2. Done'') w1)
         = (Inr ns, w3)"
      "load_tasks X w3 = (Inr tasks, w4)" "list_ex (\<lambda>t. task_id t = tid) tasks"
      "environ w4 ''ENCRYPTION_KEY'' = Some k" "k \<noteq> []" "fernet_valid_key X (str_encode X k)"
      "HASH_FILE \<notin> dirs w4" "backup_folder_usable w4"
  proof -
    have "update_task_status X w = update_task_status_for X tid ns [] tasks w4"
      using a(1-3) by (simp add: update_task_status_def Let_def)
    with update_task_status_for_match [OF a(4) load_tasks_returns [OF a(3)] a(5-9), where ns = ns and visited = "[]"]
    show ?thesis by simp
  qed
  have enc: "fst (update_task_status_enc X v) = Inr () \<and>
      files (snd (update_task_status_enc X v)) FILE =
        Some (fernet_encrypt X key
                (entropy v4 + length (filter (\<lambda>t. task_id t = tid') tasks') - 1)
                (str_encode X (json_dumps X
                   (map (\<lambda>t. if task_id t = tid' then t\<lparr>status := ns'\<rparr> else t) tasks'))))"
    if a: "get_valid_task_id_enc X v = (Inr tid', v1)"
      "status_choice_loop_enc
         (py_print (''Is the task (ID '' @ str_int tid' @ '') 1. In progress 2. Done'') v1)
         = (Inr ns', v3)"
      "load_tasks_enc X v3 = (Inr tasks', v4)" "list_ex (\<lambda>t. task_id t = tid') tasks'"
      "files v4 KEY_FILE = Some key" "fernet_valid_key X key"
  proof -
    have "update_task_status_enc X v = update_task_status_for_enc X tid' ns' [] tasks' v4"
      using a(1-3) by (simp add: update_task_status_enc_def Let_def)
    with update_task_status_for_enc_match [OF a(4) load_tasks_enc_returns [OF a(3)] a(5,6), where ns = ns' and visited = "[]"]
    show ?thesis by simp
  qed
  have frame: "map task_id (map (\<lambda>t. if task_id t = tid then t\<lparr>status := ns\<rparr> else t) tasks)
                 = map task_id tasks"
    "map title (map (\<lambda>t. if task_id t = tid then t\<lparr>status := ns\<rparr> else t) tasks) = map title tasks"
    "map description (map (\<lambda>t. if task_id t = tid then t\<lparr>status := ns\<rparr> else t) tasks)
       = map description tasks"
    "map status (map (\<lambda>t. if task_id t = tid then t\<lparr>status := ns\<rparr> else t) tasks)
       = map (\<lambda>t. if task_id t = tid then ns else status t) tasks"
    by (induction tasks) simp_all
  have store: "files (snd (update_task_status X w)) FILE = files w4 FILE \<or>
      (\<exists>k' n i. i \<le> length tasks \<and>
         files (snd (update_task_status X w)) FILE =
           Some (fernet_encrypt X (str_encode X k') n (str_encode X (json_dumps X
             (map (\<lambda>t. if task_id t = tid then t\<lparr>status := ns\<rparr> else t) (take i tasks)
                @ drop i tasks)))))"
    if a: "get_valid_task_id X w = (Inr tid, w1) \<and>
      status_choice_loop
        (py_print (''Is the task (ID '' @ str_int tid @ '') 1. In progress 2. Done'') w1)
        = (Inr ns, w3) \<and>
      load_tasks X w3 = (Inr tasks, w4)"
  proof -
    have "update_task_status X w = update_task_status_for X tid ns [] tasks w4"
      using a by (simp add: update_task_status_def Let_def)
    with update_task_status_for_store [of X tid ns "[]" tasks w4] show ?thesis
      by (simp only: append_Nil)
  qed
  have pre: "length (map (\<lambda>t. if task_id t = tid then t\<lparr>status := ns\<rparr> else t) (take j tasks) @ drop j tasks) = length tasks"
    by simp
  have upd: "map task_id (map (\<lambda>t. if task_id t = tid then t\<lparr>status := ns\<rparr> else t) xs)
               = map task_id xs"
    "map title (map (\<lambda>t. if task_id t = tid then t\<lparr>status := ns\<rparr> else t) xs) = map title xs"
    "map description (map (\<lambda>t. if task_id t = tid then t\<lparr>status := ns\<rparr> else t) xs)
       = map description xs"
    "map status (map (\<lambda>t. if task_id t = tid then t\<lparr>status := ns\<rparr> else t) xs)
       = map (\<lambda>t. if task_id t = tid then ns else status t) xs" for xs
    by (induction xs) simp_all
  have td: "map f (take j tasks) @ map f (drop j tasks) = map f tasks" for f :: "task \<Rightarrow> 'b"
    by (simp flip: map_append)
  have frame_prefix:
    "map task_id (map (\<lambda>t. if task_id t = tid then t\<lparr>status := ns\<rparr> else t) (take j tasks) @ drop j tasks)
       = map task_id tasks"
    "map title (map (\<lambda>t. if task_id t = tid then t\<lparr>status := ns\<rparr> else t) (take j tasks) @ drop j tasks)
       = map title tasks"
    "map description (map (\<lambda>t. if task_id t = tid then t\<lparr>status := ns\<rparr> else t) (take j tasks) @ drop j tasks)
       = map description tasks"
    "map status (map (\<lambda>t. if task_id t = tid then t\<lparr>status := ns\<rparr> else t) (take j tasks) @ drop j tasks)
       = map (\<lambda>t. if task_id t = tid then ns else status t) (take j tasks) @ map status (drop j tasks)"
    by (simp_all only: map_append upd td)
  have p1: "A \<and> B \<and> C \<and> D \<and> E \<and> F \<and> G \<and> H \<and> I \<longrightarrow> R" if "A \<Longrightarrow> B \<Longrightarrow> C \<Longrightarrow> D \<Longrightarrow> E \<Longrightarrow> F \<Longrightarrow> G \<Longrightarrow> H \<Longrightarrow> I \<Longrightarrow> R"
    for A B C D E F G H I R
    using that by blast
  have p2: "A \<and> B \<and> C \<and> D \<and> E \<and> F \<longrightarrow> R" if "A \<Longrightarrow> B \<Longrightarrow> C \<Longrightarrow> D \<Longrightarrow> E \<Longrightarrow> F \<Longrightarrow> R"
    for A B C D E F R
    using that by blast
  show ?thesis
  proof (intro conjI)
    show "length (map (\<lambda>t. if task_id t = tid then t\<lparr>status := ns\<rparr> else t) tasks) = length tasks"
      by simp
  qed (rule p1, erule (8) tm, rule p2, erule (5) enc, (rule frame)+, rule impI, erule store,
       rule pre, (rule frame_prefix)+)
qed

theorem update_task_status_changes_status_only_witness:
  "get_valid_task_id demo_platform update_input_world = (Inr 2, update_input_world1) \<and>
   status_choice_loop
     (py_print (''Is the task (ID '' @ str_int 2 @ '') 1. In progress 2. Done'')
        update_input_world1)
     = (Inr ''done'', update_input_world3) \<and>
   load_tasks demo_platform update_input_world3 = (Inr [task_A, task_B], update_input_world4) \<and>
   list_ex (\<lambda>t. task_id t = 2) [task_A, task_B] \<and>
   environ update_input_world4 ''ENCRYPTION_KEY'' = Some ''k1'' \<and>
   ''k1'' \<noteq> [] \<and>
   fernet_valid_key demo_platform (str_encode demo_platform ''k1'') \<and>
   HASH_FILE \<notin> dirs update_input_world4 \<and>
   backup_folder_usable update_input_world4 \<and>
   get_valid_task_id_enc demo_platform update_input_world_enc = (Inr 2, update_input_world_enc1) \<and>
   status_choice_loop_enc
     (py_print (''Is the task (ID '' @ str_int 2 @ '') 1. In progress 2. Done'')
        update_input_world_enc1)
     = (Inr ''done'', update_input_world_enc3) \<and>
   load_tasks_enc demo_platform update_input_world_enc3 = (Inr [task_A, task_B], update_input_world_enc4) \<and>
   files update_input_world_enc4 KEY_FILE = Some ''K0'' \<and>
   fernet_valid_key demo_platform ''K0'' \<and>
   fst (update_task_status demo_platform update_input_world) = Inr () \<and>
   files (snd (update_task_status demo_platform update_input_world)) FILE =
     Some (fernet_encrypt demo_platform (str_encode demo_platform ''k1'')
             (entropy update_input_world4
                + length (filter (\<lambda>t. task_id t = 2) [task_A, task_B]) - 1)
             (str_encode demo_platform (json_dumps demo_platform
                (map (\<lambda>t. if task_id t = 2 then t\<lparr>status := ''done''\<rparr> else t) [task_A, task_B])))) \<and>
   files (snd (update_task_status demo_platform update_input_world)) HASH_FILE =
     Some (str_encode demo_platform (calculate_hash demo_platform (json_dumps demo_platform
             (map (\<lambda>t. if task_id t = 2 then t\<lparr>status := ''done''\<rparr> else t) [task_A, task_B])))) \<and>
   fst (update_task_status_enc demo_platform update_input_world_enc) = Inr () \<and>
   files (snd (update_task_status_enc demo_platform update_input_world_enc)) FILE =
     Some (fernet_encrypt demo_platform ''K0''
             (entropy update_input_world_enc4
                + length (filter (\<lambda>t. task_id t = 2) [task_A, task_B]) - 1)
             (str_encode demo_platform (json_dumps demo_platform
                (map (\<lambda>t. if task_id t = 2 then t\<lparr>status := ''done''\<rparr> else t) [task_A, task_B])))) \<and>
   fst (load_tasks demo_platform (snd (update_task_status demo_platform update_input_world)))
     = Inr [task_A, task_B\<lparr>status := ''done''\<rparr>] \<and>
   fst (load_tasks_enc demo_platform (snd (update_task_status_enc demo_platform update_input_world_enc)))
     = Inr [task_A, task_B\<lparr>status := ''done''\<rparr>]"
proof -
  have "fst (get_valid_task_id demo_platform update_input_world) = Inr 2"
    by code_simp
  then have a1: "get_valid_task_id demo_platform update_input_world = (Inr 2, update_input_world1)"
    by (simp add: prod_eq_iff update_input_world1_def)
  have "fst (status_choice_loop
     (py_print (''Is the task (ID '' @ str_int 2 @ '') 1. In progress 2. Done'')
        update_input_world1)) = Inr ''done''"
    by code_simp
  then have a2: "status_choice_loop
     (py_print (''Is the task (ID '' @ str_int 2 @ '') 1. In progress 2. Done'')
        update_input_world1)
     = (Inr ''done'', update_input_world3)"
    by (simp add: prod_eq_iff update_input_world3_def)
  have "fst (load_tasks demo_platform update_input_world3) = Inr [task_A, task_B]"
    by code_simp
  then have a3: "load_tasks demo_platform update_input_world3 = (Inr [task_A, task_B], update_input_world4)"
    by (simp add: prod_eq_iff update_input_world4_def)
  have a4: "list_ex (\<lambda>t. task_id t = 2) [task_A, task_B]"
    by code_simp
  have a5: "environ update_input_world4 ''ENCRYPTION_KEY'' = Some ''k1''"
    by code_simp
  have a6: "''k1'' \<noteq> []"
    by simp
  have a7: "fernet_valid_key demo_platform (str_encode demo_platform ''k1'')"
    by code_simp
  have a8: "HASH_FILE \<notin> dirs update_input_world4"
    by code_simp
  have a9: "backup_folder_usable update_input_world4"
    by code_simp
  have "fst (get_valid_task_id_enc demo_platform update_input_world_enc) = Inr 2"
    by code_simp
  then have b1: "get_valid_task_id_enc demo_platform update_input_world_enc = (Inr 2, update_input_world_enc1)"
    by (simp add: prod_eq_iff update_input_world_enc1_def)
  have "fst (status_choice_loop_enc
     (py_print (''Is the task (ID '' @ str_int 2 @ '') 1. In progress 2. Done'')
        update_input_world_enc1)) = Inr ''done''"
    by code_simp
  then have b2: "status_choice_loop_enc
     (py_print (''Is the task (ID '' @ str_int 2 @ '') 1. In progress 2. Done'')
        update_input_world_enc1)
     = (Inr ''done'', update_input_world_enc3)"
    by (simp add: prod_eq_iff update_input_world_enc3_def)
  have "fst (load_tasks_enc demo_platform update_input_world_enc3) = Inr [task_A, task_B]"
    by code_simp
  then have b3: "load_tasks_enc demo_platform update_input_world_enc3 = (Inr [task_A, task_B], update_input_world_enc4)"
    by (simp add: prod_eq_iff update_input_world_enc4_def)
  have b5: "files update_input_world_enc4 KEY_FILE = Some ''K0''"
    by code_simp
  have b6: "fernet_valid_key demo_platform ''K0''"
    by code_simp
  note inst = update_task_status_changes_status_only
    [of demo_platform update_input_world 2 update_input_world1 "''done''" update_input_world3
        "[task_A, task_B]" update_input_world4 "''k1''"
        update_input_world_enc 2 update_input_world_enc1 "''done''" update_input_world_enc3
        "[task_A, task_B]" update_input_world_enc4 "''K0''"]
  have c: "fst (update_task_status demo_platform update_input_world) = Inr () \<and>
   files (snd (update_task_status demo_platform update_input_world)) FILE =
     Some (fernet_encrypt demo_platform (str_encode demo_platform ''k1'')
             (entropy update_input_world4
                + length (filter (\<lambda>t. task_id t = 2) [task_A, task_B]) - 1)
             (str_encode demo_platform (json_dumps demo_platform
                (map (\<lambda>t. if task_id t = 2 then t\<lparr>status := ''done''\<rparr> else t) [task_A, task_B])))) \<and>
   files (snd (update_task_status demo_platform update_input_world)) HASH_FILE =
     Some (str_encode demo_platform (calculate_hash demo_platform (json_dumps demo_platform
             (map (\<lambda>t. if task_id t = 2 then t\<lparr>status := ''done''\<rparr> else t) [task_A, task_B])))) \<and>
   fst (update_task_status_enc demo_platform update_input_world_enc) = Inr () \<and>
   files (snd (update_task_status_enc demo_platform update_input_world_enc)) FILE =
     Some (fernet_encrypt demo_platform ''K0''
             (entropy update_input_world_enc4
                + length (filter (\<lambda>t. task_id t = 2) [task_A, task_B]) - 1)
             (str_encode demo_platform (json_dumps demo_platform
                (map (\<lambda>t. if task_id t = 2 then t\<lparr>status := ''done''\<rparr> else t) [task_A, task_B]))))"
    using inst a1 a2 a3 a4 a5 a6 a7 a8 a9 b1 b2 b3 b5 b6 by blast
  have x1: "fst (load_tasks demo_platform (snd (update_task_status demo_platform update_input_world)))
     = Inr [task_A, task_B\<lparr>status := ''done''\<rparr>]"
    by code_simp
  have x2: "fst (load_tasks_enc demo_platform (snd (update_task_status_enc demo_platform update_input_world_enc)))
     = Inr [task_A, task_B\<lparr>status := ''done''\<rparr>]"
    by code_simp
  show ?thesis
    using a1 a2 a3 a4 a5 a6 a7 a8 a9 b1 b2 b3 b5 b6 c x1 x2 by blast
qed

end
